theory Spec2Isabelle
  imports Complex_Main
begin

section \<open>Strings and values of the host language\<close>

text \<open>
  A TypeScript string is a sequence of UTF-16 code units. A code unit is represented by its
  numeric value, so every string the program can receive is a \<open>jsstring\<close>. Literals of
  the source are written \<open>str ''...''\<close>.
\<close>

type_synonym jsstring = "nat list"

definition str :: "string \<Rightarrow> jsstring" where
  "str s = map of_char s"

text \<open>
  Values that arrive from the remote API are untyped at run time (\<open>unknown\<close>,
  \<open>Record<string, unknown>\<close> in the source). They are modelled as parsed JSON; a number
  parsed from JSON is finite, hence a rational.
\<close>

datatype json =
    JUndefined
  | JNull
  | JBool bool
  | JNum rat
  | JStr jsstring
  | JArr "json list"
  | JObj "(jsstring \<times> json) list"

datatype error =
    TypeError
  | Error jsstring
  | Rejected jsstring

text \<open>
  Built-in operations of the language runtime that the program calls but does not define are
  parameters of the model: \<open>String.prototype.toLowerCase\<close>, the string conversion used by
  template literals and \<open>Array.prototype.join\<close>, \<open>JSON.stringify\<close>, the string form of a
  thrown value, and the clock read by \<open>new Date()\<close>. A plain object also answers to the
  names it inherits from \<open>Object.prototype\<close> (\<open>constructor\<close>, \<open>toString\<close>, ...):
  \<open>inherited_member\<close> tells whether a name is inherited and gives the string form of that
  member, which is all the program ever does with one. Every such member is truthy.
\<close>

record js_runtime =
  toLowerCase :: "jsstring \<Rightarrow> jsstring"
  toString :: "json \<Rightarrow> jsstring"
  JSON_stringify :: "json \<Rightarrow> json"
  errorToString :: "error \<Rightarrow> jsstring"
  now :: jsstring
  inherited_member :: "jsstring \<Rightarrow> jsstring option"

section \<open>db/schema-sync.ts: sanitizeColumnName\<close>

definition is_lower_alnum :: "nat \<Rightarrow> bool" where
  "is_lower_alnum c \<longleftrightarrow> (97 \<le> c \<and> c \<le> 122) \<or> (48 \<le> c \<and> c \<le> 57)"

abbreviation underscore :: nat where
  "underscore \<equiv> 95"

text \<open>The character class \<open>[a-z0-9_]\<close>.\<close>

definition in_class :: "nat \<Rightarrow> bool" where
  "in_class c \<longleftrightarrow> is_lower_alnum c \<or> c = underscore"

text \<open>\<open>.replace(/[^a-z0-9_]/g, "_")\<close>\<close>

definition replace_outside_class :: "jsstring \<Rightarrow> jsstring" where
  "replace_outside_class s = map (\<lambda>c. if in_class c then c else underscore) s"

text \<open>\<open>.replace(/^_+|_+$/g, "")\<close>: the leading run and the trailing run of underscores go.\<close>

definition strip_underscores :: "jsstring \<Rightarrow> jsstring" where
  "strip_underscores s =
     rev (dropWhile (\<lambda>c. c = underscore) (rev (dropWhile (\<lambda>c. c = underscore) s)))"

text \<open>\<open>.replace(/_+/g, "_")\<close>: every maximal run of underscores becomes one underscore.\<close>

fun collapse_underscores :: "jsstring \<Rightarrow> jsstring" where
  "collapse_underscores (a # b # cs) =
     (if a = underscore \<and> b = underscore then collapse_underscores (b # cs)
      else a # collapse_underscores (b # cs))"
| "collapse_underscores cs = cs"

definition sanitizeColumnName :: "js_runtime \<Rightarrow> jsstring \<Rightarrow> jsstring" where
  "sanitizeColumnName rt name =
     collapse_underscores (strip_underscores (replace_outside_class (toLowerCase rt name)))"

text \<open>
  The pattern of the specification, \<open>[a-z0-9]([a-z0-9_]*[a-z0-9])?\<close>, and its reading
  in words: no two underscores in a row.
\<close>

definition matches_identifier_pattern :: "jsstring \<Rightarrow> bool" where
  "matches_identifier_pattern s \<longleftrightarrow>
     s \<noteq> [] \<and> is_lower_alnum (hd s) \<and> is_lower_alnum (last s) \<and> list_all in_class s"

fun no_repeated_underscore :: "jsstring \<Rightarrow> bool" where
  "no_repeated_underscore (a # b # cs) \<longleftrightarrow>
     \<not> (a = underscore \<and> b = underscore) \<and> no_repeated_underscore (b # cs)"
| "no_repeated_underscore cs \<longleftrightarrow> True"

text \<open>
  A runtime for the concrete runs below. It is exact on what those runs feed it: ASCII
  strings for \<open>toLowerCase\<close>, strings for the string conversion, and the empty array for
  \<open>JSON.stringify\<close>. The inherited members are the twelve of \<open>Object.prototype\<close>, with
  the string forms of Node.
\<close>

definition object_prototype_functions :: "jsstring list" where
  "object_prototype_functions =
     [str ''__defineGetter__'', str ''__defineSetter__'', str ''hasOwnProperty'',
      str ''__lookupGetter__'', str ''__lookupSetter__'', str ''isPrototypeOf'',
      str ''propertyIsEnumerable'', str ''toString'', str ''valueOf'', str ''toLocaleString'']"

definition node_inherited_member :: "jsstring \<Rightarrow> jsstring option" where
  "node_inherited_member k =
     (if k = str ''__proto__'' then Some (str ''[object Object]'')
      else if k = str ''constructor'' then Some (str ''function Object() { [native code] }'')
      else if k \<in> set object_prototype_functions
      then Some (str ''function '' @ k @ str ''() { [native code] }'')
      else None)"

definition ascii_lower :: "jsstring \<Rightarrow> jsstring" where
  "ascii_lower s = map (\<lambda>c. if 65 \<le> c \<and> c \<le> 90 then c + 32 else c) s"

definition ascii_runtime :: js_runtime where
  "ascii_runtime = \<lparr> toLowerCase = ascii_lower, toString = (\<lambda>v. case v of JStr s \<Rightarrow> s | _ \<Rightarrow> []),
     JSON_stringify = (\<lambda>v. case v of JArr [] \<Rightarrow> JStr (str ''[]'') | _ \<Rightarrow> JUndefined),
     errorToString = (\<lambda>e. case e of TypeError \<Rightarrow> str ''TypeError'' | Error m \<Rightarrow> m | Rejected m \<Rightarrow> m),
     now = str ''2024-01-01T00:00:00.000Z'',
     inherited_member = node_inherited_member \<rparr>"

section \<open>sync/types.ts\<close>

record PropertyMapping =
  notionType :: jsstring
  postgresType :: jsstring
  columnName :: jsstring

text \<open>
  A \<open>SchemaMapping\<close> is an object keyed by property name. It is kept as the list of its
  own entries in the order of \<open>Object.entries\<close>, which is all the program reads of it
  (\<open>Object.entries\<close>, \<open>Object.values\<close>, \<open>Object.keys\<close>). \<open>assign\<close> updates such a
  list: an existing key is overwritten in place and a new one is appended.
  \<open>object_assign\<close> is the assignment \<open>obj[k] = v\<close> on an object created by \<open>{}\<close>: for
  the key \<open>__proto__\<close> it calls the inherited setter, which changes the prototype at most
  and stores no entry; for any other key it is \<open>assign\<close>.
\<close>

type_synonym SchemaMapping = "(jsstring \<times> PropertyMapping) list"

fun assign :: "(jsstring \<times> 'v) list \<Rightarrow> jsstring \<Rightarrow> 'v \<Rightarrow> (jsstring \<times> 'v) list" where
  "assign [] k v = [(k, v)]"
| "assign ((k', v') # kvs) k v = (if k' = k then (k, v) # kvs else (k', v') # assign kvs k v)"

definition object_assign :: "(jsstring \<times> 'v) list \<Rightarrow> jsstring \<Rightarrow> 'v \<Rightarrow> (jsstring \<times> 'v) list" where
  "object_assign kvs k v = (if k = str ''__proto__'' then kvs else assign kvs k v)"

record SyncRecord =
  notion_page_id :: jsstring
  page_content :: jsstring
  synced_at :: jsstring
  properties :: "(jsstring \<times> json) list"

record SyncState =
  lastSyncTime :: "jsstring option"
  cursor :: "jsstring option"

record SyncResult =
  processedCount :: nat
  errorCount :: nat
  errors :: "jsstring list"

record TableColumn =
  column_name :: jsstring
  data_type :: jsstring
  is_nullable :: jsstring

record SchemaSyncResult =
  created :: bool
  columnsAdded :: "jsstring list"

record SyncOptions =
  databaseId :: jsstring
  pageSize :: "nat option"

record RunSyncOutput =
  result :: SyncResult
  nextState :: "SyncState option"
  hasMore :: bool

section \<open>The remote API client\<close>

text \<open>
  What \<open>notion.databases.retrieve\<close> and \<open>notion.databases.query\<close> answer, as far as the
  program reads it. A response without a \<open>properties\<close> section, and a partial page object
  without \<open>properties\<close> or \<open>last_edited_time\<close>, are part of the client's types.
\<close>

record database_response =
  db_properties :: "(jsstring \<times> jsstring) list option"

record page =
  page_id :: jsstring
  page_properties :: "(jsstring \<times> json) list option"
  last_edited_time :: "jsstring option"

record query_params =
  database_id :: jsstring
  page_size :: nat
  start_cursor :: "jsstring option"
  filter_edited_after :: "jsstring option"

record query_result =
  results :: "page list"
  has_more :: bool
  next_cursor :: "jsstring option"

text \<open>
  \<open>markdown_of_page\<close> stands for the two calls into the notion-to-md library,
  \<open>n2m.pageToMarkdown(pageId)\<close> then \<open>n2m.toMarkdownString(mdBlocks)\<close>, and gives the
  \<open>parent\<close> field of the outcome, which may be missing.
\<close>

record notion_client =
  databases_retrieve :: "jsstring \<Rightarrow> error + database_response"
  databases_query :: "query_params \<Rightarrow> error + query_result"
  markdown_of_page :: "jsstring \<Rightarrow> error + jsstring option"

section \<open>The relational client\<close>

text \<open>
  The statements the program sends. A column definition is either a quoted property column,
  \<open>"name" type\<close>, or one of the reserved definitions written without quotes, such as
  \<open>notion_page_id TEXT PRIMARY KEY\<close>.
\<close>

datatype column_def =
    QuotedCol jsstring jsstring
  | RawCol jsstring jsstring

fun def_name :: "column_def \<Rightarrow> jsstring" where
  "def_name (QuotedCol n t) = n"
| "def_name (RawCol n t) = n"

datatype statement =
    SelectTableExists jsstring
  | SelectTableColumns jsstring
  | CreateTable jsstring "column_def list"
  | AlterTableAddColumn jsstring column_def
  | InsertOnConflict jsstring "jsstring list" "json list"


text \<open>
  The client is a capability over a store of type \<open>'s\<close>. A statement that fails leaves the
  store as it was. The effects of a run are the store, the statements sent in order, and the
  warnings handed to the logger. The logger module is not among the sources: its calls are
  taken to return, and only the warnings of the reconciler, which its specification names,
  are recorded.
\<close>

record 's sql_client =
  sql_exists :: "'s \<Rightarrow> jsstring \<Rightarrow> error + bool"
  sql_columns :: "'s \<Rightarrow> jsstring \<Rightarrow> error + TableColumn list"
  sql_query :: "statement \<Rightarrow> 's \<Rightarrow> error + 's"

record 's io =
  db :: 's
  issued :: "statement list"
  warnings :: "jsstring list"

definition send :: "statement \<Rightarrow> 's io \<Rightarrow> 's io" where
  "send q w = w\<lparr>issued := issued w @ [q]\<rparr>"

section \<open>db/queries.ts\<close>

definition tableExists :: "'s sql_client \<Rightarrow> jsstring \<Rightarrow> 's io \<Rightarrow> (error + bool) \<times> 's io" where
  "tableExists sql tableName w =
     (sql_exists sql (db w) tableName, send (SelectTableExists tableName) w)"

definition getTableColumns ::
  "'s sql_client \<Rightarrow> jsstring \<Rightarrow> 's io \<Rightarrow> (error + TableColumn list) \<times> 's io" where
  "getTableColumns sql tableName w =
     (sql_columns sql (db w) tableName, send (SelectTableColumns tableName) w)"

definition executeRaw :: "'s sql_client \<Rightarrow> statement \<Rightarrow> 's io \<Rightarrow> (error + unit) \<times> 's io" where
  "executeRaw sql q w =
     (case sql_query sql q (db w) of
        Inl e \<Rightarrow> (Inl e, send q w)
      | Inr d \<Rightarrow> (Inr (), send q (w\<lparr>db := d\<rparr>)))"

text \<open>
  Reading \<open>obj[k]\<close> where \<open>k\<close> is an own key or a name that no object inherits:
  \<open>undefined\<close> when absent.
\<close>

definition lookup :: "(jsstring \<times> json) list \<Rightarrow> jsstring \<Rightarrow> json" where
  "lookup kvs k = (case map_of kvs k of None \<Rightarrow> JUndefined | Some v \<Rightarrow> v)"

definition upsertRecord ::
  "'s sql_client \<Rightarrow> jsstring \<Rightarrow> SyncRecord \<Rightarrow> jsstring list \<Rightarrow> 's io \<Rightarrow> (error + unit) \<times> 's io" where
  "upsertRecord sql tableName record columns w =
     (let allColumns = [str ''notion_page_id'', str ''page_content'', str ''synced_at''] @ columns;
          values = [JStr (notion_page_id record), JStr (page_content record), JStr (synced_at record)]
                   @ map (\<lambda>col. lookup (properties record) col) columns
      in executeRaw sql (InsertOnConflict tableName allColumns values) w)"

section \<open>db/schema-sync.ts\<close>

definition TYPE_MAP :: "(jsstring \<times> jsstring) list" where
  "TYPE_MAP =
     [(str ''title'', str ''TEXT''),
      (str ''rich_text'', str ''TEXT''),
      (str ''number'', str ''NUMERIC''),
      (str ''select'', str ''TEXT''),
      (str ''multi_select'', str ''TEXT[]''),
      (str ''date'', str ''TIMESTAMPTZ''),
      (str ''checkbox'', str ''BOOLEAN''),
      (str ''url'', str ''TEXT''),
      (str ''email'', str ''TEXT''),
      (str ''phone_number'', str ''TEXT''),
      (str ''formula'', str ''TEXT''),
      (str ''relation'', str ''TEXT[]''),
      (str ''rollup'', str ''TEXT''),
      (str ''created_time'', str ''TIMESTAMPTZ''),
      (str ''created_by'', str ''TEXT''),
      (str ''last_edited_time'', str ''TIMESTAMPTZ''),
      (str ''last_edited_by'', str ''TEXT''),
      (str ''files'', str ''TEXT[]''),
      (str ''people'', str ''TEXT[]''),
      (str ''status'', str ''TEXT''),
      (str ''unique_id'', str ''TEXT'')]"

text \<open>\<open>databaseId.replace(/-/g, "_").substring(0, 20)\<close>, prefixed with \<open>notion_\<close>.\<close>

definition getTableName :: "jsstring \<Rightarrow> jsstring" where
  "getTableName dbId =
     str ''notion_'' @ take 20 (map (\<lambda>c. if c = 45 then underscore else c) dbId)"

text \<open>
  \<open>TYPE_MAP[notionType]\<close>: the relational type for one of the listed kinds; for a name that
  the object inherits, that member, of which the statements built later use the string form;
  \<open>undefined\<close> otherwise.
\<close>

definition index_TYPE_MAP :: "js_runtime \<Rightarrow> jsstring \<Rightarrow> jsstring option" where
  "index_TYPE_MAP rt typeName =
     (case map_of TYPE_MAP typeName of
        Some pgType \<Rightarrow> Some pgType
      | None \<Rightarrow> inherited_member rt typeName)"

text \<open>
  The loop of fetchNotionSchema over \<open>Object.entries(db.properties)\<close>; the list of
  properties is in the order in which an object enumerates its keys, and assigning in that
  order enumerates the same way. A type for which \<open>TYPE_MAP[notionType]\<close> is
  \<open>undefined\<close> is skipped (with a log line); nothing compares the column name of one entry
  with another's.
\<close>

fun collectMapping :: "js_runtime \<Rightarrow> (jsstring \<times> jsstring) list \<Rightarrow> SchemaMapping \<Rightarrow> SchemaMapping" where
  "collectMapping rt [] mapping = mapping"
| "collectMapping rt ((propName, propType) # rest) mapping =
     (case index_TYPE_MAP rt propType of
        Some pgType \<Rightarrow>
          collectMapping rt rest
            (object_assign mapping propName
               \<lparr>notionType = propType, postgresType = pgType,
                columnName = sanitizeColumnName rt propName\<rparr>)
      | None \<Rightarrow> collectMapping rt rest mapping)"

definition fetchNotionSchema :: "js_runtime \<Rightarrow> notion_client \<Rightarrow> jsstring \<Rightarrow> error + SchemaMapping" where
  "fetchNotionSchema rt notion dbId =
     (case databases_retrieve notion dbId of
        Inl e \<Rightarrow> Inl e
      | Inr response \<Rightarrow>
          (case db_properties response of
             None \<Rightarrow> Inl (Error (str ''Unable to retrieve database properties''))
           | Some props \<Rightarrow> Inr (collectMapping rt props [])))"

text \<open>
  The properties for which fetchNotionSchema stores an entry: the test \<open>if (postgresType)\<close>
  holds and the assignment is not the one to \<open>__proto__\<close>; and the entry it stores.
\<close>

definition stored :: "js_runtime \<Rightarrow> jsstring \<times> jsstring \<Rightarrow> bool" where
  "stored rt prop \<longleftrightarrow> index_TYPE_MAP rt (snd prop) \<noteq> None \<and> fst prop \<noteq> str ''__proto__''"

definition entry_of :: "js_runtime \<Rightarrow> jsstring \<times> jsstring \<Rightarrow> jsstring \<times> PropertyMapping" where
  "entry_of rt prop =
     (fst prop,
      \<lparr>notionType = snd prop,
       postgresType = (case index_TYPE_MAP rt (snd prop) of Some pgType \<Rightarrow> pgType | None \<Rightarrow> []),
       columnName = sanitizeColumnName rt (fst prop)\<rparr>)"

text \<open>The first loop of the alter branch: one add-column statement per missing property column.\<close>

fun addPropertyColumns ::
  "'s sql_client \<Rightarrow> jsstring \<Rightarrow> jsstring list \<Rightarrow> PropertyMapping list \<Rightarrow> jsstring list \<Rightarrow> 's io
     \<Rightarrow> (error + jsstring list) \<times> 's io" where
  "addPropertyColumns sql tableName existingNames [] added w = (Inr added, w)"
| "addPropertyColumns sql tableName existingNames (prop # rest) added w =
     (if columnName prop \<notin> set existingNames then
        (case executeRaw sql
                (AlterTableAddColumn tableName (QuotedCol (columnName prop) (postgresType prop))) w of
           (Inl e, w') \<Rightarrow> (Inl e, w')
         | (Inr u, w') \<Rightarrow>
             addPropertyColumns sql tableName existingNames rest (added @ [columnName prop]) w')
      else addPropertyColumns sql tableName existingNames rest added w)"

definition specialCols :: "(jsstring \<times> column_def) list" where
  "specialCols =
     [(str ''notion_page_id'', RawCol (str ''notion_page_id'') (str ''TEXT PRIMARY KEY'')),
      (str ''page_content'', RawCol (str ''page_content'') (str ''TEXT'')),
      (str ''synced_at'', RawCol (str ''synced_at'') (str ''TIMESTAMPTZ DEFAULT NOW()''))]"

definition missing_pk_warning :: jsstring where
  "missing_pk_warning =
     str ''Table exists but missing notion_page_id column - manual intervention required''"

text \<open>
  The second loop: a missing reserved column is added, except \<open>notion_page_id\<close>, for which
  a warning is logged and the loop continues.
\<close>

fun addSpecialColumns ::
  "'s sql_client \<Rightarrow> jsstring \<Rightarrow> jsstring list \<Rightarrow> (jsstring \<times> column_def) list \<Rightarrow> jsstring list \<Rightarrow> 's io
     \<Rightarrow> (error + jsstring list) \<times> 's io" where
  "addSpecialColumns sql tableName existingNames [] added w = (Inr added, w)"
| "addSpecialColumns sql tableName existingNames ((name, cdef) # rest) added w =
     (if name \<notin> set existingNames then
        (if name = str ''notion_page_id'' then
           addSpecialColumns sql tableName existingNames rest added
             (w\<lparr>warnings := warnings w @ [missing_pk_warning]\<rparr>)
         else
           (case executeRaw sql (AlterTableAddColumn tableName cdef) w of
              (Inl e, w') \<Rightarrow> (Inl e, w')
            | (Inr u, w') \<Rightarrow>
                addSpecialColumns sql tableName existingNames rest (added @ [name]) w'))
      else addSpecialColumns sql tableName existingNames rest added w)"

definition syncSchema ::
  "'s sql_client \<Rightarrow> jsstring \<Rightarrow> SchemaMapping \<Rightarrow> 's io \<Rightarrow> (error + SchemaSyncResult) \<times> 's io" where
  "syncSchema sql tableName schema w =
     (case tableExists sql tableName w of
        (Inl e, w1) \<Rightarrow> (Inl e, w1)
      | (Inr False, w1) \<Rightarrow>
          (let columnDefs = map snd specialCols
                 @ map (\<lambda>s. QuotedCol (columnName s) (postgresType s)) (map snd schema)
           in case executeRaw sql (CreateTable tableName columnDefs) w1 of
                (Inl e, w2) \<Rightarrow> (Inl e, w2)
              | (Inr u, w2) \<Rightarrow> (Inr \<lparr>created = True, columnsAdded = []\<rparr>, w2))
      | (Inr True, w1) \<Rightarrow>
          (case getTableColumns sql tableName w1 of
             (Inl e, w2) \<Rightarrow> (Inl e, w2)
           | (Inr existingCols, w2) \<Rightarrow>
               (let existingNames = map column_name existingCols
                in case addPropertyColumns sql tableName existingNames (map snd schema) [] w2 of
                     (Inl e, w3) \<Rightarrow> (Inl e, w3)
                   | (Inr added, w3) \<Rightarrow>
                       (case addSpecialColumns sql tableName existingNames specialCols added w3 of
                          (Inl e, w4) \<Rightarrow> (Inl e, w4)
                        | (Inr added', w4) \<Rightarrow>
                            (Inr \<lparr>created = False, columnsAdded = added'\<rparr>, w4)))))"

section \<open>notion/page-reader.ts: extractPropertyValue\<close>

text \<open>
  Truthiness, \<open>typeof v === "object"\<close>, the nullish test of \<open>??\<close> and \<open>?.\<close>, and
  property reads. None of the property names the program reads is a built-in member of an
  array, a string, a number or a boolean, so reading one from such a value gives
  \<open>undefined\<close>; reading from \<open>null\<close> or \<open>undefined\<close> throws.
\<close>

fun truthy :: "json \<Rightarrow> bool" where
  "truthy JUndefined = False"
| "truthy JNull = False"
| "truthy (JBool b) = b"
| "truthy (JNum n) = (n \<noteq> 0)"
| "truthy (JStr s) = (s \<noteq> [])"
| "truthy (JArr vs) = True"
| "truthy (JObj kvs) = True"

fun typeof_object :: "json \<Rightarrow> bool" where
  "typeof_object JNull = True"
| "typeof_object (JArr vs) = True"
| "typeof_object (JObj kvs) = True"
| "typeof_object v = False"

fun nullish :: "json \<Rightarrow> bool" where
  "nullish JUndefined = True"
| "nullish JNull = True"
| "nullish v = False"

fun get :: "json \<Rightarrow> jsstring \<Rightarrow> json" where
  "get (JObj kvs) k = lookup kvs k"
| "get v k = JUndefined"

text \<open>\<open>a ?? b\<close>, \<open>v?.k\<close> and \<open>v.k\<close>.\<close>

definition coalesce :: "json \<Rightarrow> json \<Rightarrow> json" where
  "coalesce a b = (if nullish a then b else a)"

definition opt_member :: "json \<Rightarrow> jsstring \<Rightarrow> json" where
  "opt_member v k = (if nullish v then JUndefined else get v k)"

definition member' :: "json \<Rightarrow> jsstring \<Rightarrow> error + json" where
  "member' v k = (if nullish v then Inl TypeError else Inr (get v k))"

fun map_throwing :: "('a \<Rightarrow> error + 'b) \<Rightarrow> 'a list \<Rightarrow> error + 'b list" where
  "map_throwing f [] = Inr []"
| "map_throwing f (x # xs) =
     (case f x of
        Inl e \<Rightarrow> Inl e
      | Inr y \<Rightarrow> (case map_throwing f xs of Inl e \<Rightarrow> Inl e | Inr ys \<Rightarrow> Inr (y # ys)))"

text \<open>
  \<open>items?.map(f)\<close>: \<open>undefined\<close> for a nullish receiver, the mapped array for an array, and
  a TypeError for anything else, which has no \<open>map\<close> to call.
\<close>

fun opt_map :: "(json \<Rightarrow> error + json) \<Rightarrow> json \<Rightarrow> error + json list option" where
  "opt_map f JUndefined = Inr None"
| "opt_map f JNull = Inr None"
| "opt_map f (JArr vs) = (case map_throwing f vs of Inl e \<Rightarrow> Inl e | Inr ws \<Rightarrow> Inr (Some ws))"
| "opt_map f v = Inl TypeError"

text \<open>\<open>.join("")\<close>: \<open>null\<close> and \<open>undefined\<close> elements contribute nothing.\<close>

definition join_empty :: "js_runtime \<Rightarrow> json list \<Rightarrow> jsstring" where
  "join_empty rt vs = concat (map (\<lambda>v. if nullish v then [] else toString rt v) vs)"

definition file_url :: "json \<Rightarrow> error + json" where
  "file_url f =
     (case member' f (str ''file'') of
        Inl e \<Rightarrow> Inl e
      | Inr file \<Rightarrow>
          (if nullish (opt_member file (str ''url''))
           then Inr (opt_member (get f (str ''external'')) (str ''url''))
           else Inr (opt_member file (str ''url''))))"

definition extractPropertyValue :: "js_runtime \<Rightarrow> json \<Rightarrow> error + json" where
  "extractPropertyValue rt property =
     (if \<not> truthy property \<or> \<not> typeof_object property then Inr JNull
      else
        let type = get property (str ''type'') in
        if type = JStr (str ''title'') \<or> type = JStr (str ''rich_text'') then
          (case opt_map (\<lambda>t. member' t (str ''plain_text''))
                  (get property (case type of JStr k \<Rightarrow> k | _ \<Rightarrow> [])) of
             Inl e \<Rightarrow> Inl e
           | Inr None \<Rightarrow> Inr (JStr [])
           | Inr (Some texts) \<Rightarrow> Inr (JStr (join_empty rt texts)))
        else if type = JStr (str ''number'') then
          Inr (coalesce (get property (str ''number'')) JNull)
        else if type = JStr (str ''select'') then
          Inr (coalesce (opt_member (get property (str ''select'')) (str ''name'')) JNull)
        else if type = JStr (str ''multi_select'') then
          (case opt_map (\<lambda>opt. member' opt (str ''name'')) (get property (str ''multi_select'')) of
             Inl e \<Rightarrow> Inl e
           | Inr None \<Rightarrow> Inr (JArr [])
           | Inr (Some names) \<Rightarrow> Inr (JArr names))
        else if type = JStr (str ''date'') then
          Inr (coalesce (opt_member (get property (str ''date'')) (str ''start'')) JNull)
        else if type = JStr (str ''checkbox'') then
          Inr (coalesce (get property (str ''checkbox'')) (JBool False))
        else if type = JStr (str ''url'') then
          Inr (coalesce (get property (str ''url'')) JNull)
        else if type = JStr (str ''email'') then
          Inr (coalesce (get property (str ''email'')) JNull)
        else if type = JStr (str ''phone_number'') then
          Inr (coalesce (get property (str ''phone_number'')) JNull)
        else if type = JStr (str ''formula'') then
          (let formula = get property (str ''formula'') in
           if \<not> truthy formula then Inr JNull
           else Inr (coalesce (coalesce (coalesce (coalesce
                  (get formula (str ''string''))
                  (get formula (str ''number'')))
                  (get formula (str ''boolean'')))
                  (get formula (str ''date'')))
                  JNull))
        else if type = JStr (str ''relation'') then
          (case opt_map (\<lambda>r. member' r (str ''id'')) (get property (str ''relation'')) of
             Inl e \<Rightarrow> Inl e
           | Inr None \<Rightarrow> Inr (JArr [])
           | Inr (Some ids) \<Rightarrow> Inr (JArr ids))
        else if type = JStr (str ''rollup'') then
          (let rollup = get property (str ''rollup'') in
           if \<not> truthy rollup then Inr JNull
           else if get rollup (str ''type'') = JStr (str ''array'')
           then Inr (JSON_stringify rt (get rollup (str ''array'')))
           else Inr (coalesce (coalesce
                  (get rollup (str ''number''))
                  (get rollup (str ''date'')))
                  JNull))
        else if type = JStr (str ''created_time'') then
          Inr (coalesce (get property (str ''created_time'')) JNull)
        else if type = JStr (str ''last_edited_time'') then
          Inr (coalesce (get property (str ''last_edited_time'')) JNull)
        else if type = JStr (str ''created_by'') \<or> type = JStr (str ''last_edited_by'') then
          Inr (coalesce
                 (opt_member (get property (case type of JStr k \<Rightarrow> k | _ \<Rightarrow> [])) (str ''id''))
                 JNull)
        else if type = JStr (str ''files'') then
          (case opt_map file_url (get property (str ''files'')) of
             Inl e \<Rightarrow> Inl e
           | Inr None \<Rightarrow> Inr (JArr [])
           | Inr (Some urls) \<Rightarrow> Inr (JArr (filter truthy urls)))
        else if type = JStr (str ''people'') then
          (case opt_map (\<lambda>p. member' p (str ''id'')) (get property (str ''people'')) of
             Inl e \<Rightarrow> Inl e
           | Inr None \<Rightarrow> Inr (JArr [])
           | Inr (Some ids) \<Rightarrow> Inr (JArr ids))
        else if type = JStr (str ''status'') then
          Inr (coalesce (opt_member (get property (str ''status'')) (str ''name'')) JNull)
        else if type = JStr (str ''unique_id'') then
          (let uid = get property (str ''unique_id'') in
           if \<not> truthy uid then Inr JNull
           else if truthy (get uid (str ''prefix''))
           then Inr (JStr (toString rt (get uid (str ''prefix'')) @ str ''-''
                           @ toString rt (get uid (str ''number''))))
           else Inr (JStr (toString rt (get uid (str ''number'')))))
        else Inr JNull)"

text \<open>
  The reading of the specification for computed values: the first populated one of the
  sub-results string, number, boolean, date, in that order.
\<close>

definition first_populated_of_string_number_boolean_date :: "json \<Rightarrow> json" where
  "first_populated_of_string_number_boolean_date computed =
     (if \<not> nullish (get computed (str ''string'')) then get computed (str ''string'')
      else if \<not> nullish (get computed (str ''number'')) then get computed (str ''number'')
      else if \<not> nullish (get computed (str ''boolean'')) then get computed (str ''boolean'')
      else if \<not> nullish (get computed (str ''date'')) then get computed (str ''date'')
      else JNull)"

text \<open>The reading of the source for a rollup that is not an array: number, then date.\<close>

definition first_populated_of_number_date :: "json \<Rightarrow> json" where
  "first_populated_of_number_date computed =
     (if \<not> nullish (get computed (str ''number'')) then get computed (str ''number'')
      else if \<not> nullish (get computed (str ''date'')) then get computed (str ''date'')
      else JNull)"

section \<open>notion/markdown-converter.ts: pageToMarkdown\<close>

text \<open>
  The body of the \<open>try\<close> returns \<open>mdString.parent ?? ""\<close>; the \<open>catch\<close> returns the empty
  string. Before the \<open>try\<close> the converter is constructed and a transformer that yields the
  empty string is registered for each suppressed block kind; these calls into the library
  only store their arguments. The result type keeps room for an exception so that its
  absence is a statement.
\<close>

definition pageToMarkdown :: "notion_client \<Rightarrow> jsstring \<Rightarrow> error + jsstring" where
  "pageToMarkdown notion pageId =
     (case markdown_of_page notion pageId of
        Inl e \<Rightarrow> Inr []
      | Inr parent \<Rightarrow> Inr (case parent of None \<Rightarrow> [] | Some content \<Rightarrow> content))"

section \<open>sync/notion-to-postgres.ts: runSync\<close>

text \<open>Truthiness of an optional string field: present and not empty.\<close>

fun truthy_str :: "jsstring option \<Rightarrow> bool" where
  "truthy_str None = False"
| "truthy_str (Some s) = (s \<noteq> [])"

text \<open>Step 3: the cursor wins over the watermark; without either the query is unfiltered.\<close>

definition buildQueryParams :: "SyncOptions \<Rightarrow> SyncState option \<Rightarrow> query_params" where
  "buildQueryParams options state =
     (let base = \<lparr>database_id = databaseId options,
                  page_size = (case pageSize options of None \<Rightarrow> 100 | Some n \<Rightarrow> n),
                  start_cursor = None, filter_edited_after = None\<rparr>
      in case state of
           None \<Rightarrow> base
         | Some st \<Rightarrow>
             if truthy_str (cursor st) then base\<lparr>start_cursor := cursor st\<rparr>
             else if truthy_str (lastSyncTime st) then base\<lparr>filter_edited_after := lastSyncTime st\<rparr>
             else base)"

text \<open>
  The inner loop over the schema entries: a property the page lacks is left out, and a value
  is stored by the assignment \<open>properties[propDef.columnName] = ...\<close> on an object created
  by \<open>{}\<close>.
\<close>

fun extractProperties ::
  "js_runtime \<Rightarrow> SchemaMapping \<Rightarrow> (jsstring \<times> json) list \<Rightarrow> (jsstring \<times> json) list
     \<Rightarrow> error + (jsstring \<times> json) list" where
  "extractProperties rt [] pageProps acc = Inr acc"
| "extractProperties rt ((propName, propDef) # rest) pageProps acc =
     (let notionProp = lookup pageProps propName in
      if truthy notionProp then
        (case extractPropertyValue rt notionProp of
           Inl e \<Rightarrow> Inl e
         | Inr v \<Rightarrow> extractProperties rt rest pageProps (object_assign acc (columnName propDef) v))
      else extractProperties rt rest pageProps acc)"

text \<open>The body of the \<open>try\<close> for one page that has properties.\<close>

definition processPage ::
  "js_runtime \<Rightarrow> notion_client \<Rightarrow> 's sql_client \<Rightarrow> jsstring \<Rightarrow> SchemaMapping \<Rightarrow> jsstring list
     \<Rightarrow> jsstring \<Rightarrow> (jsstring \<times> json) list \<Rightarrow> 's io \<Rightarrow> (error + unit) \<times> 's io" where
  "processPage rt notion sql tableName schemaMapping columnNames pid pageProps w =
     (case extractProperties rt schemaMapping pageProps [] of
        Inl e \<Rightarrow> (Inl e, w)
      | Inr props \<Rightarrow>
          (case pageToMarkdown notion pid of
             Inl e \<Rightarrow> (Inl e, w)
           | Inr pageContent \<Rightarrow>
               upsertRecord sql tableName
                 \<lparr>notion_page_id = pid, page_content = pageContent, synced_at = now rt,
                  properties = props\<rparr>
                 columnNames w))"


text \<open>One iteration of the loop over the query results, with its \<open>try\<close>/\<open>catch\<close>.\<close>

definition syncPage ::
  "js_runtime \<Rightarrow> notion_client \<Rightarrow> 's sql_client \<Rightarrow> jsstring \<Rightarrow> SchemaMapping \<Rightarrow> jsstring list
     \<Rightarrow> page \<Rightarrow> SyncResult \<times> 's io \<Rightarrow> SyncResult \<times> 's io" where
  "syncPage rt notion sql tableName schemaMapping columnNames pg acc =
     (case page_properties pg of
        None \<Rightarrow> acc
      | Some pageProps \<Rightarrow>
          (case processPage rt notion sql tableName schemaMapping columnNames
                  (page_id pg) pageProps (snd acc) of
             (Inr u, w') \<Rightarrow> ((fst acc)\<lparr>processedCount := processedCount (fst acc) + 1\<rparr>, w')
           | (Inl e, w') \<Rightarrow>
               ((fst acc)\<lparr>errorCount := errorCount (fst acc) + 1,
                           errors := errors (fst acc)
                             @ [str ''Page '' @ page_id pg @ str '': '' @ errorToString rt e]\<rparr>,
                w')))"

fun syncPages ::
  "js_runtime \<Rightarrow> notion_client \<Rightarrow> 's sql_client \<Rightarrow> jsstring \<Rightarrow> SchemaMapping \<Rightarrow> jsstring list
     \<Rightarrow> page list \<Rightarrow> SyncResult \<times> 's io \<Rightarrow> SyncResult \<times> 's io" where
  "syncPages rt notion sql tableName schemaMapping columnNames [] acc = acc"
| "syncPages rt notion sql tableName schemaMapping columnNames (pg # rest) acc =
     syncPages rt notion sql tableName schemaMapping columnNames rest
       (syncPage rt notion sql tableName schemaMapping columnNames pg acc)"

text \<open>Step 5: the state handed back for the next invocation.\<close>

definition determineNextState :: "SyncState option \<Rightarrow> query_result \<Rightarrow> SyncState option" where
  "determineNextState state queryResult =
     (if has_more queryResult \<and> truthy_str (next_cursor queryResult) then
        Some ((case state of None \<Rightarrow> \<lparr>lastSyncTime = None, cursor = None\<rparr> | Some st \<Rightarrow> st)
                \<lparr>cursor := next_cursor queryResult\<rparr>)
      else if length (results queryResult) > 0 then
        (case last_edited_time (last (results queryResult)) of
           Some t \<Rightarrow> Some \<lparr>lastSyncTime = Some t, cursor = None\<rparr>
         | None \<Rightarrow> None)
      else None)"

definition runSync ::
  "js_runtime \<Rightarrow> notion_client \<Rightarrow> 's sql_client \<Rightarrow> SyncOptions \<Rightarrow> SyncState option \<Rightarrow> 's io
     \<Rightarrow> (error + RunSyncOutput) \<times> 's io" where
  "runSync rt notion sql options state w =
     (let tableName = getTableName (databaseId options) in
      case fetchNotionSchema rt notion (databaseId options) of
        Inl e \<Rightarrow> (Inl e, w)
      | Inr schemaMapping \<Rightarrow>
          (case (if state = None
                 then (case syncSchema sql tableName schemaMapping w of
                         (Inl e, w1) \<Rightarrow> (Inl e, w1)
                       | (Inr schemaResult, w1) \<Rightarrow> (Inr (), w1))
                 else (Inr (), w)) of
             (Inl e, w1) \<Rightarrow> (Inl e, w1)
           | (Inr u, w1) \<Rightarrow>
               (case databases_query notion (buildQueryParams options state) of
                  Inl e \<Rightarrow> (Inl e, w1)
                | Inr queryResult \<Rightarrow>
                    (let columnNames = map (\<lambda>s. columnName s) (map snd schemaMapping);
                         done = syncPages rt notion sql tableName schemaMapping columnNames
                                  (results queryResult)
                                  (\<lparr>processedCount = 0, errorCount = 0, errors = []\<rparr>, w1)
                     in (Inr \<lparr>result = fst done,
                              nextState = determineNextState state queryResult,
                              hasMore = has_more queryResult\<rparr>,
                         snd done)))))"

section \<open>A reference store\<close>

text \<open>
  A relational store that keeps, for each table, the names of its columns as they were
  given. Creating an existing table, a repeated column name, adding a column to a missing
  table or one it already has, and writing to a missing table or column are refused.
\<close>

type_synonym catalog = "(jsstring \<times> jsstring list) list"

definition refused :: error where
  "refused = Rejected (str ''statement refused'')"

fun catalog_query :: "statement \<Rightarrow> catalog \<Rightarrow> error + catalog" where
  "catalog_query (CreateTable t defs) c =
     (if map_of c t \<noteq> None \<or> \<not> distinct (map def_name defs) then Inl refused
      else Inr (c @ [(t, map def_name defs)]))"
| "catalog_query (AlterTableAddColumn t d) c =
     (case map_of c t of
        None \<Rightarrow> Inl refused
      | Some cols \<Rightarrow>
          if def_name d \<in> set cols then Inl refused
          else Inr (assign c t (cols @ [def_name d])))"
| "catalog_query (InsertOnConflict t cols vals) c =
     (case map_of c t of
        None \<Rightarrow> Inl refused
      | Some tcols \<Rightarrow>
          if set cols \<subseteq> set tcols \<and> distinct cols \<and> length vals = length cols then Inr c
          else Inl refused)"
| "catalog_query q c = Inr c"

definition catalog_client :: "catalog sql_client" where
  "catalog_client =
     \<lparr>sql_exists = (\<lambda>c t. Inr (map_of c t \<noteq> None)),
      sql_columns = (\<lambda>c t. Inr (map (\<lambda>n. \<lparr>column_name = n, data_type = str ''text'',
                                           is_nullable = str ''YES''\<rparr>)
                                  (case map_of c t of None \<Rightarrow> [] | Some cols \<Rightarrow> cols))),
      sql_query = catalog_query\<rparr>"

section \<open>A concrete collection, its pages and its table\<close>

text \<open>
  The collection of the end-to-end scenario: properties \<open>Title\<close> (title) and
  \<open>Status\<close> (select). The remote client answers every query with a given page of
  results.
\<close>

definition demo_options :: SyncOptions where
  "demo_options = \<lparr>databaseId = str ''0f1e2d3c-4b5a-6978-8796-a5b4c3d2e1f0'', pageSize = None\<rparr>"

definition demo_database :: database_response where
  "demo_database = \<lparr>db_properties = Some [(str ''Title'', str ''title''), (str ''Status'', str ''select'')]\<rparr>"

definition demo_notion :: "query_result \<Rightarrow> notion_client" where
  "demo_notion qr = \<lparr>databases_retrieve = (\<lambda>i. Inr demo_database),
     databases_query = (\<lambda>q. Inr qr), markdown_of_page = (\<lambda>i. Inr (Some (str ''body'')))\<rparr>"

definition demo_schema :: SchemaMapping where
  "demo_schema =
     [(str ''Title'', \<lparr>notionType = str ''title'', postgresType = str ''TEXT'', columnName = str ''title''\<rparr>),
      (str ''Status'', \<lparr>notionType = str ''select'', postgresType = str ''TEXT'', columnName = str ''status''\<rparr>)]"

definition demo_page :: "string \<Rightarrow> string \<Rightarrow> string \<Rightarrow> page" where
  "demo_page i title edited =
     \<lparr>page_id = str i,
      page_properties = Some
        [(str ''Title'', JObj [(str ''type'', JStr (str ''title'')),
                               (str ''title'', JArr [JObj [(str ''plain_text'', JStr (str title))]])]),
         (str ''Status'', JObj [(str ''type'', JStr (str ''select'')),
                                (str ''select'', JObj [(str ''name'', JStr (str ''Done''))])])],
      last_edited_time = Some (str edited)\<rparr>"

definition more_pages :: query_result where
  "more_pages = \<lparr>results = [demo_page ''p1'' ''Hello'' ''2024-05-01T10:00:00.000Z''],
                  has_more = True, next_cursor = Some (str ''cursor-2'')\<rparr>"

definition last_pages :: query_result where
  "last_pages = \<lparr>results = [demo_page ''p1'' ''Hello'' ''2024-05-01T10:00:00.000Z'',
                             demo_page ''p2'' ''World'' ''2024-05-02T11:30:00.000Z''],
                  has_more = False, next_cursor = None\<rparr>"

definition partial_page :: "string \<Rightarrow> page" where
  "partial_page i = \<lparr>page_id = str i, page_properties = None, last_edited_time = None\<rparr>"

definition partial_last :: query_result where
  "partial_last = \<lparr>results = [demo_page ''p1'' ''Hello'' ''2024-05-01T10:00:00.000Z'',
                                partial_page ''p2''],
                   has_more = False, next_cursor = None\<rparr>"


definition empty_last :: query_result where
  "empty_last = \<lparr>results = [], has_more = False, next_cursor = None\<rparr>"

definition watermark_state :: SyncState where
  "watermark_state = \<lparr>lastSyncTime = Some (str ''2024-04-30T09:00:00.000Z''), cursor = None\<rparr>"

definition cursor_state :: SyncState where
  "cursor_state = \<lparr>lastSyncTime = Some (str ''2024-04-30T09:00:00.000Z''), cursor = Some (str ''cursor-2'')\<rparr>"

definition demo_store :: "catalog io" where
  "demo_store =
     \<lparr>db = [(getTableName (databaseId demo_options),
             [str ''notion_page_id'', str ''page_content'', str ''synced_at'', str ''title'', str ''status''])],
      issued = [], warnings = []\<rparr>"

definition twin_database :: database_response where
  "twin_database =
     \<lparr>db_properties = Some [(str ''Due Date'', str ''date''), (str ''Due-Date'', str ''date'')]\<rparr>"

definition odd_database :: database_response where
  "odd_database =
     \<lparr>db_properties = Some [(str ''Title'', str ''title''), (str ''__proto__'', str ''rich_text''),
                             (str ''Legacy'', str ''constructor''), (str ''Action'', str ''button'')]\<rparr>"

definition odd_notion :: notion_client where
  "odd_notion = \<lparr>databases_retrieve = (\<lambda>i. Inr odd_database),
     databases_query = (\<lambda>q. Inr \<lparr>results = [], has_more = False, next_cursor = None\<rparr>),
     markdown_of_page = (\<lambda>i. Inr None)\<rparr>"

definition twin_notion :: notion_client where
  "twin_notion = \<lparr>databases_retrieve = (\<lambda>i. Inr twin_database),
     databases_query = (\<lambda>q. Inr empty_last), markdown_of_page = (\<lambda>i. Inr None)\<rparr>"

text \<open>
  A table created before the reserved columns existed, and a collection with a property
  whose name sanitizes to the reserved name \<open>notion_page_id\<close>.
\<close>

definition legacy_store :: "catalog io" where
  "legacy_store =
     \<lparr>db = [(getTableName (databaseId demo_options), [str ''title''])],
      issued = [], warnings = []\<rparr>"

definition reserved_name_database :: database_response where
  "reserved_name_database =
     \<lparr>db_properties = Some [(str ''Notion Page ID'', str ''rich_text'')]\<rparr>"

definition reserved_name_notion :: notion_client where
  "reserved_name_notion = \<lparr>databases_retrieve = (\<lambda>i. Inr reserved_name_database),
     databases_query = (\<lambda>q. Inr empty_last), markdown_of_page = (\<lambda>i. Inr None)\<rparr>"

definition reserved_name_schema :: SchemaMapping where
  "reserved_name_schema =
     [(str ''Notion Page ID'',
       \<lparr>notionType = str ''rich_text'', postgresType = str ''TEXT'',
        columnName = str ''notion_page_id''\<rparr>)]"

definition string_rollup :: json where
  "string_rollup =
     JObj [(str ''type'', JStr (str ''rollup'')),
           (str ''rollup'', JObj [(str ''type'', JStr (str ''string'')),
                                  (str ''string'', JStr (str ''done''))])]"

definition number_formula :: json where
  "number_formula =
     JObj [(str ''type'', JStr (str ''formula'')),
           (str ''formula'', JObj [(str ''type'', JStr (str ''number'')),
                                   (str ''number'', JNum 42)])]"

definition array_rollup :: json where
  "array_rollup =
     JObj [(str ''type'', JStr (str ''rollup'')),
           (str ''rollup'', JObj [(str ''type'', JStr (str ''array'')),
                                  (str ''array'', JArr [])])]"



definition failing_conversion :: "query_result \<Rightarrow> notion_client" where
  "failing_conversion qr =
     (demo_notion qr)\<lparr>markdown_of_page := (\<lambda>i. Inl (Rejected (str ''conversion failed'')))\<rparr>"



section \<open>Properties of sanitizeColumnName\<close>

lemma inj_str: "inj str"
  unfolding str_def by (simp add: inj_of_char)

lemma str_eq_iff: "str a = str b \<longleftrightarrow> a = b"
  using inj_str by (simp add: inj_eq)

lemma in_class_replace: "list_all in_class (replace_outside_class s)"
  by (induction s) (simp_all add: replace_outside_class_def in_class_def)

lemma set_strip_subset: "set (strip_underscores s) \<subseteq> set s"
proof -
  have "set (strip_underscores s) \<subseteq> set (dropWhile (\<lambda>c. c = underscore) s)"
    unfolding strip_underscores_def using set_dropWhileD by fastforce
  also have "\<dots> \<subseteq> set s"
    using set_dropWhileD by fastforce
  finally show ?thesis .
qed

lemma hd_strip: "strip_underscores s \<noteq> [] \<Longrightarrow> hd (strip_underscores s) \<noteq> underscore"
proof -
  assume ne: "strip_underscores s \<noteq> []"
  let ?d = "dropWhile (\<lambda>c. c = underscore) s"
  let ?e = "dropWhile (\<lambda>c. c = underscore) (rev ?d)"
  from ne have e_ne: "?e \<noteq> []" by (simp add: strip_underscores_def)
  have d_ne: "?d \<noteq> []"
  proof
    assume "?d = []"
    then have "?e = []" by (simp only: rev.simps dropWhile.simps)
    with e_ne show False by blast
  qed
  have "hd (strip_underscores s) = last ?e"
    using e_ne by (simp add: strip_underscores_def hd_rev)
  also have "\<dots> = last (rev ?d)"
  proof -
    obtain ys where "rev ?d = ys @ ?e"
      by (metis takeWhile_dropWhile_id)
    then show ?thesis using e_ne by (metis last_appendR)
  qed
  also have "\<dots> = hd ?d" using d_ne by (simp add: last_rev)
  finally have "hd (strip_underscores s) = hd ?d" .
  moreover have "hd ?d \<noteq> underscore" using d_ne hd_dropWhile by blast
  ultimately show ?thesis by simp
qed

lemma last_strip: "strip_underscores s \<noteq> [] \<Longrightarrow> last (strip_underscores s) \<noteq> underscore"
proof -
  assume ne: "strip_underscores s \<noteq> []"
  let ?e = "dropWhile (\<lambda>c. c = underscore) (rev (dropWhile (\<lambda>c. c = underscore) s))"
  from ne have e_ne: "?e \<noteq> []" by (simp add: strip_underscores_def)
  have "last (strip_underscores s) = hd ?e"
    using e_ne by (simp add: strip_underscores_def last_rev)
  moreover have "hd ?e \<noteq> underscore" using e_ne hd_dropWhile by blast
  ultimately show ?thesis by simp
qed

lemma collapse_nonempty: "collapse_underscores s = [] \<longleftrightarrow> s = []"
  by (induction s rule: collapse_underscores.induct) auto

lemma set_collapse_subset: "set (collapse_underscores s) \<subseteq> set s"
  by (induction s rule: collapse_underscores.induct) auto

lemma last_collapse: "last (collapse_underscores s) = last s"
  by (induction s rule: collapse_underscores.induct) (auto simp: collapse_nonempty)

lemma hd_collapse: "s \<noteq> [] \<Longrightarrow> hd s \<noteq> underscore \<Longrightarrow> hd (collapse_underscores s) = hd s"
  by (induction s rule: collapse_underscores.induct) auto

lemma no_repeated_collapse: "no_repeated_underscore (collapse_underscores s)"
proof (induction s rule: collapse_underscores.induct)
  case (1 a b cs)
  show ?case
  proof (cases "a = underscore \<and> b = underscore")
    case True
    with 1 show ?thesis by simp
  next
    case False
    have ne: "collapse_underscores (b # cs) \<noteq> []" by (simp add: collapse_nonempty)
    then obtain x xs where xs: "collapse_underscores (b # cs) = x # xs"
      by (cases "collapse_underscores (b # cs)") auto
    have hx: "b \<noteq> underscore \<Longrightarrow> x = b"
      using hd_collapse [of "b # cs"] xs by simp
    from False 1 xs hx show ?thesis by auto
  qed
qed simp_all

lemma collapse_id: "no_repeated_underscore s \<Longrightarrow> collapse_underscores s = s"
  by (induction s rule: collapse_underscores.induct) auto

lemma strip_id:
  assumes "s \<noteq> [] \<longrightarrow> hd s \<noteq> underscore \<and> last s \<noteq> underscore"
  shows "strip_underscores s = s"
proof (cases s)
  case Nil
  then show ?thesis by (simp add: strip_underscores_def)
next
  case (Cons a as)
  with assms have h: "a \<noteq> underscore" and l: "last s \<noteq> underscore" by auto
  from h Cons have d: "dropWhile (\<lambda>c. c = underscore) s = s" by simp
  have "hd (rev s) = last s" using Cons by (simp add: hd_rev)
  with l have "dropWhile (\<lambda>c. c = underscore) (rev s) = rev s"
    by (simp add: dropWhile_eq_self_iff)
  with d show ?thesis by (simp add: strip_underscores_def)
qed

lemma replace_id: "list_all in_class s \<Longrightarrow> replace_outside_class s = s"
  by (induction s) (simp_all add: replace_outside_class_def)

text \<open>The shape of every output of the sanitizer, for any lower-casing function.\<close>

lemma sanitize_in_class: "list_all in_class (sanitizeColumnName rt x)"
proof -
  have "set (sanitizeColumnName rt x) \<subseteq> set (replace_outside_class (toLowerCase rt x))"
    unfolding sanitizeColumnName_def
    using set_collapse_subset set_strip_subset by blast
  then show ?thesis
    using in_class_replace [of "toLowerCase rt x"] by (auto simp: list_all_iff)
qed

lemma sanitize_ends:
  assumes "sanitizeColumnName rt x \<noteq> []"
  shows "hd (sanitizeColumnName rt x) \<noteq> underscore" and "last (sanitizeColumnName rt x) \<noteq> underscore"
proof -
  let ?t = "strip_underscores (replace_outside_class (toLowerCase rt x))"
  from assms have ne: "?t \<noteq> []" by (simp add: sanitizeColumnName_def collapse_nonempty)
  show "hd (sanitizeColumnName rt x) \<noteq> underscore"
    using ne hd_strip hd_collapse [of ?t] by (simp add: sanitizeColumnName_def)
  show "last (sanitizeColumnName rt x) \<noteq> underscore"
    using ne last_strip by (simp add: sanitizeColumnName_def last_collapse)
qed

lemma sanitize_no_repeat: "no_repeated_underscore (sanitizeColumnName rt x)"
  by (simp add: sanitizeColumnName_def no_repeated_collapse)

lemma sanitize_pattern:
  "sanitizeColumnName rt x = [] \<or>
   (matches_identifier_pattern (sanitizeColumnName rt x) \<and> no_repeated_underscore (sanitizeColumnName rt x))"
proof (cases "sanitizeColumnName rt x = []")
  case True
  then show ?thesis by simp
next
  case False
  let ?s = "sanitizeColumnName rt x"
  have cls: "list_all in_class ?s" by (rule sanitize_in_class)
  from False have "hd ?s \<in> set ?s" "last ?s \<in> set ?s" by simp_all
  with cls have "in_class (hd ?s)" "in_class (last ?s)" by (auto simp: list_all_iff)
  with sanitize_ends [OF False] have "is_lower_alnum (hd ?s)" "is_lower_alnum (last ?s)"
    by (auto simp: in_class_def)
  with False cls sanitize_no_repeat show ?thesis
    by (simp add: matches_identifier_pattern_def)
qed

lemma sanitize_fixed:
  assumes cls: "list_all in_class s"
      and ends: "s \<noteq> [] \<longrightarrow> hd s \<noteq> underscore \<and> last s \<noteq> underscore"
      and rep: "no_repeated_underscore s"
      and lc: "toLowerCase rt s = s"
  shows "sanitizeColumnName rt s = s"
  using assms by (simp add: sanitizeColumnName_def replace_id strip_id collapse_id)

lemma ascii_lower_fixes_class: "list_all in_class s \<Longrightarrow> ascii_lower s = s"
  by (induction s) (auto simp: ascii_lower_def in_class_def is_lower_alnum_def)

text \<open>
  Claim C7. sanitizeColumnName is idempotent, and its output is empty or matches
  \<open>[a-z0-9]([a-z0-9_]*[a-z0-9])?\<close> with no repeated underscore. The only fact used about
  \<open>toLowerCase\<close> is that it leaves strings over \<open>[a-z0-9_]\<close> unchanged, which the
  language guarantees.
\<close>

theorem sanitizeColumnName_idempotent_pattern:
  assumes "\<forall>s. list_all in_class s \<longrightarrow> toLowerCase rt s = s"
  shows "sanitizeColumnName rt (sanitizeColumnName rt x) = sanitizeColumnName rt x
       \<and> (sanitizeColumnName rt x = [] \<or>
            (matches_identifier_pattern (sanitizeColumnName rt x)
             \<and> no_repeated_underscore (sanitizeColumnName rt x)))"
proof -
  let ?s = "sanitizeColumnName rt x"
  have cls: "list_all in_class ?s" by (rule sanitize_in_class)
  with assms have lc: "toLowerCase rt ?s = ?s" by blast
  have "sanitizeColumnName rt ?s = ?s"
    using cls sanitize_ends [of rt x] sanitize_no_repeat lc by (intro sanitize_fixed) auto
  with sanitize_pattern show ?thesis by blast
qed

lemma sanitize_due_date: "sanitizeColumnName ascii_runtime (str ''Due Date!!'') = str ''due_date''"
  by (simp add: sanitizeColumnName_def ascii_runtime_def ascii_lower_def str_def
      replace_outside_class_def in_class_def is_lower_alnum_def strip_underscores_def)

theorem sanitizeColumnName_idempotent_pattern_witness:
  "sanitizeColumnName ascii_runtime (str ''Due Date!!'') = str ''due_date''
   \<and> sanitizeColumnName ascii_runtime (sanitizeColumnName ascii_runtime (str ''Due Date!!''))
       = sanitizeColumnName ascii_runtime (str ''Due Date!!'')
   \<and> matches_identifier_pattern (sanitizeColumnName ascii_runtime (str ''Due Date!!''))
   \<and> no_repeated_underscore (sanitizeColumnName ascii_runtime (str ''Due Date!!''))"
proof -
  have h: "\<forall>s. list_all in_class s \<longrightarrow> toLowerCase ascii_runtime s = s"
    by (simp add: ascii_runtime_def ascii_lower_fixes_class)
  have ne: "sanitizeColumnName ascii_runtime (str ''Due Date!!'') \<noteq> []"
    using sanitize_due_date by (simp add: str_def)
  from sanitizeColumnName_idempotent_pattern [OF h, of "str ''Due Date!!''"] ne sanitize_due_date
  show ?thesis by simp
qed

section \<open>The schema mapping\<close>

lemma assign_fresh: "k \<notin> set (map fst kvs) \<Longrightarrow> assign kvs k v = kvs @ [(k, v)]"
  by (induction kvs) auto

lemma collectMapping_distinct:
  "distinct (map fst acc @ map fst props) \<Longrightarrow>
   collectMapping rt props acc = acc @ map (entry_of rt) (filter (stored rt) props)"
proof (induction props arbitrary: acc)
  case Nil
  then show ?case by simp
next
  case (Cons p props)
  obtain n ty where p: "p = (n, ty)" by (cases p) auto
  from Cons.prems p have rest: "distinct (map fst acc @ map fst props)" by simp
  show ?case
  proof (cases "index_TYPE_MAP rt ty")
    case None
    from Cons.IH [OF rest] None p show ?thesis by (simp add: stored_def)
  next
    case (Some pg)
    let ?e = "\<lparr>notionType = ty, postgresType = pg, columnName = sanitizeColumnName rt n\<rparr>"
    show ?thesis
    proof (cases "n = str ''__proto__''")
      case True
      from Cons.IH [OF rest] Some p True show ?thesis
        by (simp add: stored_def object_assign_def)
    next
      case False
      from Cons.prems p have fresh: "n \<notin> set (map fst acc)" by auto
      then have a: "object_assign acc n ?e = acc @ [(n, ?e)]"
        using False by (simp add: object_assign_def assign_fresh)
      from Cons.prems p have "distinct (map fst (acc @ [(n, ?e)]) @ map fst props)" by auto
      from Cons.IH [OF this] Some p a False show ?thesis
        by (simp add: stored_def entry_of_def)
    qed
  qed
qed

text \<open>
  Claim C3, as the code has it. For a remote schema (its property names are unique),
  fetchNotionSchema returns one entry for each property whose type \<open>TYPE_MAP\<close> answers
  to, except a property named \<open>__proto__\<close>, for which the assignment stores nothing. The
  entry is keyed by the property name and its column name is the sanitized name. Nothing
  compares the column names: they are unique exactly when the sanitizer is injective on the
  names of the entries, and two names that sanitize alike give two entries with the same
  column name.
\<close>

theorem fetchNotionSchema_entries:
  assumes "databases_retrieve notion dbId = Inr response"
      and "db_properties response = Some props"
      and "distinct (map fst props)"
  shows "\<exists>m. fetchNotionSchema rt notion dbId = Inr m
           \<and> map fst m = map fst (filter (stored rt) props)
           \<and> map (columnName \<circ> snd) m
               = map (sanitizeColumnName rt \<circ> fst) (filter (stored rt) props)
           \<and> (distinct (map (columnName \<circ> snd) m)
                \<longleftrightarrow> inj_on (sanitizeColumnName rt) (set (map fst (filter (stored rt) props))))"
proof -
  let ?s = "filter (stored rt) props"
  let ?m = "map (entry_of rt) ?s"
  have m: "fetchNotionSchema rt notion dbId = Inr ?m"
    using assms collectMapping_distinct [of "[]" props rt]
    by (simp add: fetchNotionSchema_def)
  have k: "map fst ?m = map fst ?s" by (simp add: entry_of_def comp_def)
  have c: "map (columnName \<circ> snd) ?m = map (sanitizeColumnName rt \<circ> fst) ?s"
    by (simp add: entry_of_def comp_def)
  have d: "distinct (map fst ?s)" using assms(3) by (simp add: distinct_map_filter)
  have "distinct (map (sanitizeColumnName rt \<circ> fst) ?s)
          \<longleftrightarrow> inj_on (sanitizeColumnName rt) (set (map fst ?s))"
  proof -
    have "map (sanitizeColumnName rt \<circ> fst) ?s = map (sanitizeColumnName rt) (map fst ?s)"
      by simp
    then show ?thesis using d by (simp only: distinct_map) simp
  qed
  with m k c show ?thesis by (metis (no_types, lifting))
qed

lemma sanitize_due_date_variants:
  "sanitizeColumnName ascii_runtime (str ''Due Date'') = str ''due_date''"
  "sanitizeColumnName ascii_runtime (str ''Due-Date'') = str ''due_date''"
  by (simp_all add: sanitizeColumnName_def ascii_runtime_def ascii_lower_def str_def
      replace_outside_class_def in_class_def is_lower_alnum_def strip_underscores_def)

text \<open>
  Against C3 as stated: the properties \<open>Due Date\<close> and \<open>Due-Date\<close> are both returned,
  each with the column name \<open>due_date\<close>.
\<close>

theorem fetchNotionSchema_keeps_colliding_columns:
  "map_sum id (map (columnName \<circ> snd)) (fetchNotionSchema ascii_runtime twin_notion (str ''db''))
     = Inr [str ''due_date'', str ''due_date'']
   \<and> map_sum id (map fst) (fetchNotionSchema ascii_runtime twin_notion (str ''db''))
     = Inr [str ''Due Date'', str ''Due-Date'']"
  by (simp add: fetchNotionSchema_def twin_notion_def twin_database_def index_TYPE_MAP_def
      object_assign_def TYPE_MAP_def str_eq_iff sanitize_due_date_variants)

lemma sanitize_title_legacy:
  "sanitizeColumnName ascii_runtime (str ''Title'') = str ''title''"
  "sanitizeColumnName ascii_runtime (str ''Legacy'') = str ''legacy''"
  by (simp_all add: sanitizeColumnName_def ascii_runtime_def ascii_lower_def str_def
      replace_outside_class_def in_class_def is_lower_alnum_def strip_underscores_def)

text \<open>
  A collection with a title, a property named \<open>__proto__\<close>, a property whose declared type
  is \<open>constructor\<close>, and a property of an unknown type: the first and the third are stored.
\<close>

theorem fetchNotionSchema_entries_witness:
  "map_sum id (map fst) (fetchNotionSchema ascii_runtime odd_notion (str ''db''))
     = Inr [str ''Title'', str ''Legacy'']
   \<and> map_sum id (map (columnName \<circ> snd)) (fetchNotionSchema ascii_runtime odd_notion (str ''db''))
     = Inr [str ''title'', str ''legacy'']"
proof -
  let ?props = "[(str ''Title'', str ''title''), (str ''__proto__'', str ''rich_text''),
                 (str ''Legacy'', str ''constructor''), (str ''Action'', str ''button'')]"
  have r: "databases_retrieve odd_notion (str ''db'') = Inr odd_database"
    by (simp add: odd_notion_def)
  have p: "db_properties odd_database = Some ?props"
    by (simp add: odd_database_def)
  have d: "distinct (map fst ?props)" by (simp add: str_eq_iff)
  have s: "filter (stored ascii_runtime) ?props
             = [(str ''Title'', str ''title''), (str ''Legacy'', str ''constructor'')]"
    by (simp add: stored_def index_TYPE_MAP_def TYPE_MAP_def ascii_runtime_def
        node_inherited_member_def object_prototype_functions_def str_eq_iff)
  from fetchNotionSchema_entries [OF r p d, of ascii_runtime] s sanitize_title_legacy
  show ?thesis by auto
qed

section \<open>The statements a run sends\<close>

lemma issued_executeRaw: "issued (snd (executeRaw sql q w)) = issued w @ [q]"
  by (simp add: executeRaw_def send_def split: sum.splits)

lemma warnings_executeRaw: "warnings (snd (executeRaw sql q w)) = warnings w"
  by (simp add: executeRaw_def send_def split: sum.splits)







section \<open>Reconciliation of an existing table\<close>

lemma addPropertyColumns_ok:
  "addPropertyColumns sql t ex props added w = (Inr added', w') \<Longrightarrow>
     added' = added @ map columnName (filter (\<lambda>p. columnName p \<notin> set ex) props)
   \<and> issued w' = issued w
        @ map (\<lambda>p. AlterTableAddColumn t (QuotedCol (columnName p) (postgresType p)))
            (filter (\<lambda>p. columnName p \<notin> set ex) props)
   \<and> warnings w' = warnings w"
proof (induction props arbitrary: added w)
  case Nil
  then show ?case by simp
next
  case (Cons p props)
  show ?case
  proof (cases "columnName p \<notin> set ex")
    case False
    with Cons show ?thesis by simp
  next
    case True
    let ?q = "AlterTableAddColumn t (QuotedCol (columnName p) (postgresType p))"
    obtain r u where ru: "executeRaw sql ?q w = (r, u)" by (cases "executeRaw sql ?q w") auto
    have iu: "issued u = issued w @ [?q]" "warnings u = warnings w"
      using issued_executeRaw [of sql ?q w] warnings_executeRaw [of sql ?q w] ru by simp_all
    from Cons.prems True ru obtain x where r: "r = Inr x"
      by (cases r) auto
    with Cons.prems True ru
    have "addPropertyColumns sql t ex props (added @ [columnName p]) u = (Inr added', w')"
      by simp
    from Cons.IH [OF this] iu True show ?thesis by simp
  qed
qed

lemma addSpecialColumns_ok:
  "addSpecialColumns sql t ex cols added w = (Inr added', w') \<Longrightarrow>
     added' = added @ map fst (filter (\<lambda>c. fst c \<notin> set ex \<and> fst c \<noteq> str ''notion_page_id'') cols)
   \<and> issued w' = issued w
        @ map (\<lambda>c. AlterTableAddColumn t (snd c))
            (filter (\<lambda>c. fst c \<notin> set ex \<and> fst c \<noteq> str ''notion_page_id'') cols)
   \<and> warnings w' = warnings w
        @ map (\<lambda>c. missing_pk_warning)
            (filter (\<lambda>c. fst c \<notin> set ex \<and> fst c = str ''notion_page_id'') cols)"
proof (induction cols arbitrary: added w)
  case Nil
  then show ?case by simp
next
  case (Cons c cols)
  obtain n d where c: "c = (n, d)" by (cases c) auto
  show ?case
  proof (cases "n \<notin> set ex")
    case False
    with Cons c show ?thesis by simp
  next
    case missing: True
    show ?thesis
    proof (cases "n = str ''notion_page_id''")
      case True
      with Cons.prems c missing
      have "addSpecialColumns sql t ex cols added (w\<lparr>warnings := warnings w @ [missing_pk_warning]\<rparr>)
              = (Inr added', w')" by simp
      from Cons.IH [OF this] True c missing show ?thesis by simp
    next
      case False
      let ?q = "AlterTableAddColumn t d"
      obtain r u where ru: "executeRaw sql ?q w = (r, u)" by (cases "executeRaw sql ?q w") auto
      have iu: "issued u = issued w @ [?q]" "warnings u = warnings w"
        using issued_executeRaw [of sql ?q w] warnings_executeRaw [of sql ?q w] ru by simp_all
      from Cons.prems False missing c ru obtain x where r: "r = Inr x"
        by (cases r) auto
      with Cons.prems False missing c ru
      have "addSpecialColumns sql t ex cols (added @ [n]) u = (Inr added', w')" by simp
      from Cons.IH [OF this] iu False missing c show ?thesis by simp
    qed
  qed
qed

lemma syncSchema_alter_cases:
  assumes "syncSchema sql t schema w = (Inr r, w')"
      and "sql_exists sql (db w) t = Inr True"
      and "sql_columns sql (db w) t = Inr existingCols"
  shows "\<exists>a w3. addPropertyColumns sql t (map column_name existingCols) (map snd schema) []
                   (send (SelectTableColumns t) (send (SelectTableExists t) w)) = (Inr a, w3)
               \<and> addSpecialColumns sql t (map column_name existingCols) specialCols a w3
                   = (Inr (columnsAdded r), w')
               \<and> \<not> created r"
  using assms
  by (auto simp: syncSchema_def tableExists_def getTableColumns_def send_def Let_def
      split: prod.splits sum.splits)

text \<open>
  Claim C8, as the code has it. On an existing table without \<open>notion_page_id\<close>, a run of
  syncSchema that completes sends, after the two look-ups, one add-column statement for each
  schema entry whose column is missing and then one for each of \<open>page_content\<close> and
  \<open>synced_at\<close> that is missing; it logs the warning once and reports those columns as
  added. The pass over the reserved columns sends nothing for \<open>notion_page_id\<close>; a statement
  that adds a column of that name is sent only for a schema entry with that column name.
\<close>

theorem syncSchema_missing_primary_key:
  assumes "syncSchema sql t schema w = (Inr r, w')"
      and "sql_exists sql (db w) t = Inr True"
      and "sql_columns sql (db w) t = Inr existingCols"
      and "str ''notion_page_id'' \<notin> set (map column_name existingCols)"
  shows "issued w' = issued w @ [SelectTableExists t, SelectTableColumns t]
           @ map (\<lambda>p. AlterTableAddColumn t (QuotedCol (columnName p) (postgresType p)))
               (filter (\<lambda>p. columnName p \<notin> set (map column_name existingCols)) (map snd schema))
           @ (if str ''page_content'' \<notin> set (map column_name existingCols)
              then [AlterTableAddColumn t (RawCol (str ''page_content'') (str ''TEXT''))] else [])
           @ (if str ''synced_at'' \<notin> set (map column_name existingCols)
              then [AlterTableAddColumn t (RawCol (str ''synced_at'') (str ''TIMESTAMPTZ DEFAULT NOW()''))]
              else [])
       \<and> warnings w' = warnings w @ [missing_pk_warning]
       \<and> created r = False
       \<and> columnsAdded r =
           map columnName
             (filter (\<lambda>p. columnName p \<notin> set (map column_name existingCols)) (map snd schema))
           @ filter (\<lambda>n. n \<notin> set (map column_name existingCols))
               [str ''page_content'', str ''synced_at'']
       \<and> ((\<forall>p \<in> set (map snd schema). columnName p \<noteq> str ''notion_page_id'') \<longrightarrow>
            (\<forall>d. AlterTableAddColumn t d \<in> set (drop (length (issued w)) (issued w')) \<longrightarrow>
                 def_name d \<noteq> str ''notion_page_id''))"
proof -
  let ?ex = "map column_name existingCols"
  let ?w2 = "send (SelectTableColumns t) (send (SelectTableExists t) w)"
  from syncSchema_alter_cases [OF assms(1-3)] obtain a w3 where
    p: "addPropertyColumns sql t ?ex (map snd schema) [] ?w2 = (Inr a, w3)" and
    s: "addSpecialColumns sql t ?ex specialCols a w3 = (Inr (columnsAdded r), w')" and
    c: "\<not> created r" by blast
  have w2: "issued ?w2 = issued w @ [SelectTableExists t, SelectTableColumns t]"
      "warnings ?w2 = warnings w"
    by (simp_all add: send_def)
  note P = addPropertyColumns_ok [OF p]
  note S = addSpecialColumns_ok [OF s]
  have i: "issued w' = issued w @ [SelectTableExists t, SelectTableColumns t]
           @ map (\<lambda>p. AlterTableAddColumn t (QuotedCol (columnName p) (postgresType p)))
               (filter (\<lambda>p. columnName p \<notin> set ?ex) (map snd schema))
           @ (if str ''page_content'' \<notin> set ?ex
              then [AlterTableAddColumn t (RawCol (str ''page_content'') (str ''TEXT''))] else [])
           @ (if str ''synced_at'' \<notin> set ?ex
              then [AlterTableAddColumn t (RawCol (str ''synced_at'') (str ''TIMESTAMPTZ DEFAULT NOW()''))]
              else [])"
    using P S w2 assms(4) by (simp add: specialCols_def str_eq_iff)
  have wn: "warnings w' = warnings w @ [missing_pk_warning]"
    using P S w2 assms(4) by (simp add: specialCols_def str_eq_iff)
  have ca: "columnsAdded r =
           map columnName (filter (\<lambda>p. columnName p \<notin> set ?ex) (map snd schema))
           @ filter (\<lambda>n. n \<notin> set ?ex) [str ''page_content'', str ''synced_at'']"
    using P S by (simp add: specialCols_def str_eq_iff)
  have nm: "(\<forall>p \<in> set (map snd schema). columnName p \<noteq> str ''notion_page_id'') \<longrightarrow>
            (\<forall>d. AlterTableAddColumn t d \<in> set (drop (length (issued w)) (issued w')) \<longrightarrow>
                 def_name d \<noteq> str ''notion_page_id'')"
    unfolding i by (auto simp: str_eq_iff)
  from i wn c ca nm show ?thesis by blast
qed

lemma catalog_exists: "sql_exists catalog_client c t = Inr (map_of c t \<noteq> None)"
  by (simp add: catalog_client_def)

lemma catalog_columns:
  "\<exists>ecols. sql_columns catalog_client c t = Inr ecols
         \<and> map column_name ecols = (case map_of c t of None \<Rightarrow> [] | Some cols \<Rightarrow> cols)"
  by (simp add: catalog_client_def comp_def)

lemma legacy_run:
  "syncSchema catalog_client (getTableName (databaseId demo_options)) demo_schema legacy_store
     = (Inr (projr (fst (syncSchema catalog_client (getTableName (databaseId demo_options))
                           demo_schema legacy_store))),
        snd (syncSchema catalog_client (getTableName (databaseId demo_options))
               demo_schema legacy_store))"
  by (simp add: syncSchema_def tableExists_def getTableColumns_def executeRaw_def send_def
      catalog_client_def legacy_store_def demo_schema_def specialCols_def str_eq_iff Let_def)

text \<open>
  Against C8 as stated: the collection has a property named \<open>Notion Page ID\<close>, whose column
  name is \<open>notion_page_id\<close>; on a table without that column the run sends an add-column
  statement for it.
\<close>

theorem syncSchema_adds_property_named_like_primary_key:
  "fetchNotionSchema ascii_runtime reserved_name_notion (databaseId demo_options)
     = Inr reserved_name_schema
   \<and> issued (snd (syncSchema catalog_client (getTableName (databaseId demo_options))
                    reserved_name_schema legacy_store))
     = [SelectTableExists (getTableName (databaseId demo_options)),
        SelectTableColumns (getTableName (databaseId demo_options)),
        AlterTableAddColumn (getTableName (databaseId demo_options))
          (QuotedCol (str ''notion_page_id'') (str ''TEXT'')),
        AlterTableAddColumn (getTableName (databaseId demo_options))
          (RawCol (str ''page_content'') (str ''TEXT'')),
        AlterTableAddColumn (getTableName (databaseId demo_options))
          (RawCol (str ''synced_at'') (str ''TIMESTAMPTZ DEFAULT NOW()''))]
   \<and> map_sum id columnsAdded
       (fst (syncSchema catalog_client (getTableName (databaseId demo_options))
               reserved_name_schema legacy_store))
     = Inr [str ''notion_page_id'', str ''page_content'', str ''synced_at'']"
proof -
  have f: "fetchNotionSchema ascii_runtime reserved_name_notion (databaseId demo_options)
     = Inr reserved_name_schema"
    by (simp add: fetchNotionSchema_def reserved_name_notion_def reserved_name_database_def
        reserved_name_schema_def index_TYPE_MAP_def object_assign_def TYPE_MAP_def str_eq_iff
        sanitizeColumnName_def ascii_runtime_def ascii_lower_def
        replace_outside_class_def in_class_def is_lower_alnum_def strip_underscores_def)
       (simp add: str_def)
  have s: "syncSchema catalog_client (getTableName (databaseId demo_options))
             reserved_name_schema legacy_store
     = (Inr \<lparr>created = False,
             columnsAdded = [str ''notion_page_id'', str ''page_content'', str ''synced_at'']\<rparr>,
        \<lparr>db = [(getTableName (databaseId demo_options),
                [str ''title'', str ''notion_page_id'', str ''page_content'', str ''synced_at''])],
         issued = [SelectTableExists (getTableName (databaseId demo_options)),
            SelectTableColumns (getTableName (databaseId demo_options)),
            AlterTableAddColumn (getTableName (databaseId demo_options))
              (QuotedCol (str ''notion_page_id'') (str ''TEXT'')),
            AlterTableAddColumn (getTableName (databaseId demo_options))
              (RawCol (str ''page_content'') (str ''TEXT'')),
            AlterTableAddColumn (getTableName (databaseId demo_options))
              (RawCol (str ''synced_at'') (str ''TIMESTAMPTZ DEFAULT NOW()''))],
         warnings = [missing_pk_warning]\<rparr>)"
    by (simp add: syncSchema_def tableExists_def getTableColumns_def executeRaw_def send_def
        catalog_client_def legacy_store_def reserved_name_schema_def specialCols_def str_eq_iff
        Let_def)
  from f s show ?thesis by simp
qed

text \<open>
  The end-to-end collection against the old table: \<open>status\<close>, \<open>page_content\<close> and
  \<open>synced_at\<close> are added, \<open>notion_page_id\<close> is not, and the warning is logged.
\<close>

theorem syncSchema_missing_primary_key_witness:
  "issued (snd (syncSchema catalog_client (getTableName (databaseId demo_options))
                  demo_schema legacy_store))
     = [SelectTableExists (getTableName (databaseId demo_options)),
        SelectTableColumns (getTableName (databaseId demo_options)),
        AlterTableAddColumn (getTableName (databaseId demo_options))
          (QuotedCol (str ''status'') (str ''TEXT'')),
        AlterTableAddColumn (getTableName (databaseId demo_options))
          (RawCol (str ''page_content'') (str ''TEXT'')),
        AlterTableAddColumn (getTableName (databaseId demo_options))
          (RawCol (str ''synced_at'') (str ''TIMESTAMPTZ DEFAULT NOW()''))]
   \<and> warnings (snd (syncSchema catalog_client (getTableName (databaseId demo_options))
                      demo_schema legacy_store))
     = [missing_pk_warning]"
proof -
  let ?t = "getTableName (databaseId demo_options)"
  let ?cols = "map (\<lambda>n. \<lparr>column_name = n, data_type = str ''text'', is_nullable = str ''YES''\<rparr>)
                 [str ''title'']"
  have e: "sql_exists catalog_client (db legacy_store) ?t = Inr True"
    by (simp add: catalog_client_def legacy_store_def)
  have c: "sql_columns catalog_client (db legacy_store) ?t = Inr ?cols"
    by (simp add: catalog_client_def legacy_store_def)
  have n: "str ''notion_page_id'' \<notin> set (map column_name ?cols)"
    by (simp add: str_eq_iff)
  from syncSchema_missing_primary_key [OF legacy_run e c n]
  show ?thesis
    by (simp add: legacy_store_def demo_schema_def str_eq_iff)
qed

section \<open>Reconciliation twice in a row\<close>

lemma addPropertyColumns_present:
  "\<forall>p \<in> set props. columnName p \<in> set ex \<Longrightarrow>
   addPropertyColumns sql t ex props added w = (Inr added, w)"
  by (induction props) auto

lemma addSpecialColumns_present:
  assumes "str ''page_content'' \<in> set ex" and "str ''synced_at'' \<in> set ex"
  shows "addSpecialColumns sql t ex specialCols added w =
           (Inr added,
            w\<lparr>warnings := warnings w
                 @ (if str ''notion_page_id'' \<in> set ex then [] else [missing_pk_warning])\<rparr>)"
  using assms by (simp add: specialCols_def)

text \<open>A table that already has every column of the schema and the two reserved ones.\<close>

lemma syncSchema_up_to_date:
  assumes "sql_exists sql (db w) t = Inr True"
      and "sql_columns sql (db w) t = Inr existingCols"
      and "\<forall>p \<in> set (map snd schema). columnName p \<in> set (map column_name existingCols)"
      and "str ''page_content'' \<in> set (map column_name existingCols)"
      and "str ''synced_at'' \<in> set (map column_name existingCols)"
  shows "syncSchema sql t schema w =
           (Inr \<lparr>created = False, columnsAdded = []\<rparr>,
            w\<lparr>issued := issued w @ [SelectTableExists t, SelectTableColumns t],
              warnings := warnings w
                @ (if str ''notion_page_id'' \<in> set (map column_name existingCols) then []
                   else [missing_pk_warning])\<rparr>)"
proof -
  let ?ex = "map column_name existingCols"
  let ?w2 = "send (SelectTableColumns t) (send (SelectTableExists t) w)"
  have p: "addPropertyColumns sql t ?ex (map snd schema) [] ?w2 = (Inr [], ?w2)"
    using assms(3) by (rule addPropertyColumns_present)
  have s: "addSpecialColumns sql t ?ex specialCols [] ?w2 =
           (Inr [], ?w2\<lparr>warnings := warnings ?w2
                 @ (if str ''notion_page_id'' \<in> set ?ex then [] else [missing_pk_warning])\<rparr>)"
    using assms(4,5) by (rule addSpecialColumns_present)
  have d: "db (send (SelectTableExists t) w) = db w" by (simp add: send_def)
  show ?thesis
    using assms(1,2) p s d
    by (simp add: syncSchema_def tableExists_def getTableColumns_def Let_def)
       (simp add: send_def)
qed

lemma map_of_assign_same: "map_of (assign kvs k v) k = Some v"
  by (induction kvs) auto

lemma executeRaw_catalog:
  "executeRaw catalog_client q w = (Inr u, w') \<Longrightarrow> catalog_query q (db w) = Inr (db w')"
  by (auto simp: executeRaw_def catalog_client_def send_def split: sum.splits)

lemma catalog_add_column:
  assumes "executeRaw catalog_client (AlterTableAddColumn t d) w = (Inr u, w')"
      and "map_of (db w) t = Some cols"
  shows "map_of (db w') t = Some (cols @ [def_name d])"
proof -
  from executeRaw_catalog [OF assms(1)] assms(2)
  have "db w' = assign (db w) t (cols @ [def_name d])"
    by (auto split: if_splits)
  then show ?thesis by (simp add: map_of_assign_same)
qed

lemma catalog_addPropertyColumns:
  "addPropertyColumns catalog_client t ex props added w = (Inr added', w') \<Longrightarrow>
   map_of (db w) t = Some cols \<Longrightarrow>
   \<exists>cols'. map_of (db w') t = Some cols' \<and> set cols \<subseteq> set cols'
        \<and> (\<forall>p \<in> set props. columnName p \<in> set ex \<or> columnName p \<in> set cols')"
proof (induction props arbitrary: added w cols)
  case Nil
  then show ?case by simp
next
  case (Cons p props)
  show ?case
  proof (cases "columnName p \<notin> set ex")
    case False
    with Cons.prems have "addPropertyColumns catalog_client t ex props added w = (Inr added', w')"
      by simp
    from Cons.IH [OF this Cons.prems(2)] False show ?thesis by auto
  next
    case True
    let ?q = "AlterTableAddColumn t (QuotedCol (columnName p) (postgresType p))"
    obtain r u where ru: "executeRaw catalog_client ?q w = (r, u)"
      by (cases "executeRaw catalog_client ?q w") auto
    from Cons.prems(1) True ru obtain x where r: "r = Inr x" by (cases r) auto
    from catalog_add_column [of t "QuotedCol (columnName p) (postgresType p)" w x u cols]
      ru r Cons.prems(2)
    have u: "map_of (db u) t = Some (cols @ [columnName p])" by simp
    from Cons.prems(1) True ru r
    have "addPropertyColumns catalog_client t ex props (added @ [columnName p]) u = (Inr added', w')"
      by simp
    from Cons.IH [OF this u] obtain cols' where
      "map_of (db w') t = Some cols'" "set (cols @ [columnName p]) \<subseteq> set cols'"
      "\<forall>p \<in> set props. columnName p \<in> set ex \<or> columnName p \<in> set cols'" by blast
    then show ?thesis by auto
  qed
qed

lemma catalog_addSpecialColumns:
  "addSpecialColumns catalog_client t ex cs added w = (Inr added', w') \<Longrightarrow>
   map_of (db w) t = Some cols \<Longrightarrow>
   \<exists>cols'. map_of (db w') t = Some cols' \<and> set cols \<subseteq> set cols'
        \<and> (\<forall>c \<in> set cs. fst c = str ''notion_page_id'' \<or> fst c \<in> set ex
                          \<or> def_name (snd c) \<in> set cols')"
proof (induction cs arbitrary: added w cols)
  case Nil
  then show ?case by simp
next
  case (Cons c cs)
  obtain n d where c: "c = (n, d)" by (cases c) auto
  show ?case
  proof (cases "n \<notin> set ex \<and> n \<noteq> str ''notion_page_id''")
    case False
    show ?thesis
    proof (cases "n \<in> set ex")
      case True
      with Cons.prems c have "addSpecialColumns catalog_client t ex cs added w = (Inr added', w')"
        by simp
      from Cons.IH [OF this Cons.prems(2)] True c show ?thesis by auto
    next
      case out: False
      with False have pk: "n = str ''notion_page_id''" by simp
      with Cons.prems c out
      have "addSpecialColumns catalog_client t ex cs added
              (w\<lparr>warnings := warnings w @ [missing_pk_warning]\<rparr>) = (Inr added', w')"
        by simp
      moreover have "map_of (db (w\<lparr>warnings := warnings w @ [missing_pk_warning]\<rparr>)) t = Some cols"
        using Cons.prems(2) by simp
      ultimately show ?thesis using Cons.IH pk c by fastforce
    qed
  next
    case True
    let ?q = "AlterTableAddColumn t d"
    obtain r u where ru: "executeRaw catalog_client ?q w = (r, u)"
      by (cases "executeRaw catalog_client ?q w") auto
    from Cons.prems(1) True c ru obtain x where r: "r = Inr x" by (cases r) auto
    from catalog_add_column [of t d w x u cols] ru r Cons.prems(2)
    have u: "map_of (db u) t = Some (cols @ [def_name d])" by simp
    from Cons.prems(1) True c ru r
    have "addSpecialColumns catalog_client t ex cs (added @ [n]) u = (Inr added', w')"
      by simp
    from Cons.IH [OF this u] obtain cols' where
      "map_of (db w') t = Some cols'" "set (cols @ [def_name d]) \<subseteq> set cols'"
      "\<forall>c \<in> set cs. fst c = str ''notion_page_id'' \<or> fst c \<in> set ex
            \<or> def_name (snd c) \<in> set cols'" by blast
    then show ?thesis using c by auto
  qed
qed

lemma syncSchema_catalog_covers:
  assumes "syncSchema catalog_client t schema w = (Inr r, w')"
  shows "\<exists>cols. map_of (db w') t = Some cols
           \<and> (\<forall>p \<in> set (map snd schema). columnName p \<in> set cols)
           \<and> str ''page_content'' \<in> set cols \<and> str ''synced_at'' \<in> set cols"
proof (cases "map_of (db w) t")
  case None
  let ?defs = "map snd specialCols
                 @ map (\<lambda>s. QuotedCol (columnName s) (postgresType s)) (map snd schema)"
  from assms None obtain u where
    "executeRaw catalog_client (CreateTable t ?defs) (send (SelectTableExists t) w) = (Inr u, w')"
    by (auto simp: syncSchema_def tableExists_def catalog_exists Let_def
        split: prod.splits sum.splits)
  from executeRaw_catalog [OF this] None
  have "db w' = db w @ [(t, map def_name ?defs)]"
    by (auto simp: send_def split: if_splits)
  with None have "map_of (db w') t = Some (map def_name ?defs)"
    by (simp add: map_add_def)
  moreover have "\<forall>p \<in> set (map snd schema). columnName p \<in> set (map def_name ?defs)"
    by (auto simp: comp_def image_iff)
  moreover have "str ''page_content'' \<in> set (map def_name ?defs)"
      "str ''synced_at'' \<in> set (map def_name ?defs)"
    by (simp_all add: specialCols_def)
  ultimately show ?thesis by blast
next
  case (Some cols)
  obtain ecols where e: "sql_columns catalog_client (db w) t = Inr ecols"
      "map column_name ecols = cols"
    using catalog_columns [of "db w" t] Some by auto
  have ex: "sql_exists catalog_client (db w) t = Inr True"
    using Some by (simp add: catalog_exists)
  let ?w2 = "send (SelectTableColumns t) (send (SelectTableExists t) w)"
  from syncSchema_alter_cases [OF assms ex e(1)] e(2) obtain a w3 where
    p: "addPropertyColumns catalog_client t cols (map snd schema) [] ?w2 = (Inr a, w3)" and
    s: "addSpecialColumns catalog_client t cols specialCols a w3 = (Inr (columnsAdded r), w')"
    by auto
  have w2: "map_of (db ?w2) t = Some cols" using Some by (simp add: send_def)
  from catalog_addPropertyColumns [OF p w2] obtain cols3 where
    c3: "map_of (db w3) t = Some cols3" "set cols \<subseteq> set cols3"
        "\<forall>p \<in> set (map snd schema). columnName p \<in> set cols \<or> columnName p \<in> set cols3"
    by blast
  from catalog_addSpecialColumns [OF s c3(1)] obtain cols4 where
    c4: "map_of (db w') t = Some cols4" "set cols3 \<subseteq> set cols4"
        "\<forall>c \<in> set specialCols. fst c = str ''notion_page_id'' \<or> fst c \<in> set cols
              \<or> def_name (snd c) \<in> set cols4"
    by blast
  from c4(3) have "str ''page_content'' \<in> set cols \<or> str ''page_content'' \<in> set cols4"
      "str ''synced_at'' \<in> set cols \<or> str ''synced_at'' \<in> set cols4"
    by (simp_all add: specialCols_def str_eq_iff)
  with c3 c4 show ?thesis by blast
qed

text \<open>
  Claim C5. After a run of syncSchema that succeeded, a second run against the store it left
  reports \<open>created = false\<close> and no added column; it sends the two look-ups and no other
  statement, and leaves the store as it is.
\<close>

theorem syncSchema_idempotent:
  assumes "syncSchema catalog_client t schema w = (Inr r, w')"
  shows "fst (syncSchema catalog_client t schema w') = Inr \<lparr>created = False, columnsAdded = []\<rparr>
       \<and> db (snd (syncSchema catalog_client t schema w')) = db w'
       \<and> issued (snd (syncSchema catalog_client t schema w'))
           = issued w' @ [SelectTableExists t, SelectTableColumns t]"
proof -
  from syncSchema_catalog_covers [OF assms] obtain cols where
    c: "map_of (db w') t = Some cols"
       "\<forall>p \<in> set (map snd schema). columnName p \<in> set cols"
       "str ''page_content'' \<in> set cols" "str ''synced_at'' \<in> set cols"
    by blast
  obtain ecols where e: "sql_columns catalog_client (db w') t = Inr ecols"
      "map column_name ecols = cols"
    using catalog_columns [of "db w'" t] c(1) by auto
  have ex: "sql_exists catalog_client (db w') t = Inr True"
    using c(1) by (simp add: catalog_exists)
  from syncSchema_up_to_date [OF ex e(1)] c(2-4) e(2)
  show ?thesis by simp
qed

text \<open>First run on an empty store creates the table; the second run changes nothing.\<close>

theorem syncSchema_idempotent_witness:
  "fst (syncSchema catalog_client (str ''notion_demo'') demo_schema
          \<lparr>db = [], issued = [], warnings = []\<rparr>)
     = Inr \<lparr>created = True, columnsAdded = []\<rparr>
   \<and> fst (syncSchema catalog_client (str ''notion_demo'') demo_schema
            (snd (syncSchema catalog_client (str ''notion_demo'') demo_schema
                    \<lparr>db = [], issued = [], warnings = []\<rparr>)))
     = Inr \<lparr>created = False, columnsAdded = []\<rparr>"
proof -
  let ?w = "\<lparr>db = [], issued = [], warnings = []\<rparr> :: catalog io"
  have f: "fst (syncSchema catalog_client (str ''notion_demo'') demo_schema ?w)
             = Inr \<lparr>created = True, columnsAdded = []\<rparr>"
    by (simp add: syncSchema_def tableExists_def executeRaw_def send_def
        catalog_client_def demo_schema_def specialCols_def str_eq_iff Let_def)
  then have run: "syncSchema catalog_client (str ''notion_demo'') demo_schema ?w
      = (Inr \<lparr>created = True, columnsAdded = []\<rparr>,
         snd (syncSchema catalog_client (str ''notion_demo'') demo_schema ?w))"
    by (metis prod.collapse)
  from syncSchema_idempotent [OF run] f show ?thesis by simp
qed

section \<open>Computed values\<close>

lemma get_JStr_object: "get v k = JStr s \<Longrightarrow> \<exists>kvs. v = JObj kvs"
  by (cases v) auto

lemma extract_formula:
  assumes "get property (str ''type'') = JStr (str ''formula'')"
  shows "extractPropertyValue rt property =
           Inr (first_populated_of_string_number_boolean_date (get property (str ''formula'')))"
proof -
  obtain kvs where p: "property = JObj kvs" using get_JStr_object [OF assms] by blast
  let ?f = "get property (str ''formula'')"
  have falsy: "\<not> truthy ?f \<Longrightarrow> first_populated_of_string_number_boolean_date ?f = JNull"
    by (cases ?f) (auto simp: first_populated_of_string_number_boolean_date_def)
  show ?thesis
  proof (cases "truthy ?f")
    case False
    with assms p falsy show ?thesis
      by (simp add: extractPropertyValue_def Let_def str_eq_iff)
  next
    case True
    with assms p show ?thesis
      by (simp add: extractPropertyValue_def Let_def str_eq_iff coalesce_def
          first_populated_of_string_number_boolean_date_def)
  qed
qed

lemma extract_rollup:
  assumes "get property (str ''type'') = JStr (str ''rollup'')"
  shows "extractPropertyValue rt property =
           Inr (if get (get property (str ''rollup'')) (str ''type'') = JStr (str ''array'')
                then JSON_stringify rt (get (get property (str ''rollup'')) (str ''array''))
                else first_populated_of_number_date (get property (str ''rollup'')))"
proof -
  obtain kvs where p: "property = JObj kvs" using get_JStr_object [OF assms] by blast
  let ?r = "get property (str ''rollup'')"
  have falsy: "\<not> truthy ?r \<Longrightarrow>
      first_populated_of_number_date ?r = JNull \<and> get ?r (str ''type'') \<noteq> JStr (str ''array'')"
    by (cases ?r) (auto simp: first_populated_of_number_date_def)
  show ?thesis
  proof (cases "truthy ?r")
    case False
    with assms p falsy show ?thesis
      by (simp add: extractPropertyValue_def Let_def str_eq_iff)
  next
    case True
    with assms p show ?thesis
      by (simp add: extractPropertyValue_def Let_def str_eq_iff coalesce_def
          first_populated_of_number_date_def)
  qed
qed

text \<open>
  Claim C6, as the code has it. A formula resolves to the first populated one of its string,
  number, boolean and date sub-results. A rollup whose type is \<open>array\<close> is passed to
  \<open>JSON.stringify\<close>; any other rollup resolves to the first populated one of its number and
  date sub-results only.
\<close>

theorem extractPropertyValue_computed:
  "(get property (str ''type'') = JStr (str ''formula'') \<longrightarrow>
      extractPropertyValue rt property =
        Inr (first_populated_of_string_number_boolean_date (get property (str ''formula''))))
 \<and> (get property (str ''type'') = JStr (str ''rollup'') \<longrightarrow>
      extractPropertyValue rt property =
        Inr (if get (get property (str ''rollup'')) (str ''type'') = JStr (str ''array'')
             then JSON_stringify rt (get (get property (str ''rollup'')) (str ''array''))
             else first_populated_of_number_date (get property (str ''rollup''))))"
  using extract_formula extract_rollup by blast

text \<open>
  Against C6 as stated: a rollup whose only populated sub-result is a string resolves to
  \<open>null\<close>, not to the string.
\<close>

theorem extractPropertyValue_rollup_ignores_string:
  "extractPropertyValue ascii_runtime string_rollup = Inr JNull
   \<and> first_populated_of_string_number_boolean_date (get string_rollup (str ''rollup''))
       = JStr (str ''done'')"
  by (simp add: extractPropertyValue_def string_rollup_def lookup_def str_eq_iff coalesce_def
      first_populated_of_string_number_boolean_date_def Let_def)

text \<open>A formula with a number, and an array rollup.\<close>

theorem extractPropertyValue_computed_witness:
  "extractPropertyValue ascii_runtime number_formula = Inr (JNum 42)
   \<and> extractPropertyValue ascii_runtime array_rollup = Inr (JStr (str ''[]''))"
proof -
  have f: "get number_formula (str ''type'') = JStr (str ''formula'')"
    by (simp add: number_formula_def lookup_def str_eq_iff)
  have r: "get array_rollup (str ''type'') = JStr (str ''rollup'')"
    by (simp add: array_rollup_def lookup_def str_eq_iff)
  from extractPropertyValue_computed [of number_formula ascii_runtime] f
  have "extractPropertyValue ascii_runtime number_formula =
          Inr (first_populated_of_string_number_boolean_date (get number_formula (str ''formula'')))"
    by blast
  moreover from extractPropertyValue_computed [of array_rollup ascii_runtime] r
  have "extractPropertyValue ascii_runtime array_rollup =
        Inr (if get (get array_rollup (str ''rollup'')) (str ''type'') = JStr (str ''array'')
             then JSON_stringify ascii_runtime (get (get array_rollup (str ''rollup'')) (str ''array''))
             else first_populated_of_number_date (get array_rollup (str ''rollup'')))"
    by blast
  ultimately show ?thesis
    by (simp add: number_formula_def array_rollup_def lookup_def str_eq_iff ascii_runtime_def
        first_populated_of_string_number_boolean_date_def)
qed

section \<open>Content flattening\<close>

lemma pageToMarkdown_total: "\<exists>content. pageToMarkdown notion pid = Inr content"
  by (cases "markdown_of_page notion pid") (simp_all add: pageToMarkdown_def)

lemma pageToMarkdown_failure: "isl (markdown_of_page notion pid) \<Longrightarrow> pageToMarkdown notion pid = Inr []"
  by (cases "markdown_of_page notion pid") (simp_all add: pageToMarkdown_def)

text \<open>
  Claim C9. pageToMarkdown returns a string for every record identifier and never raises;
  when the conversion fails it returns the empty string. In the loop of runSync, a record
  whose conversion fails while its extraction and its write succeed is counted as processed:
  the error count and the error messages are unchanged, and the row is written with empty
  content.
\<close>

theorem pageToMarkdown_never_raises:
  "(\<exists>content. pageToMarkdown notion pid = Inr content)
 \<and> (isl (markdown_of_page notion pid) \<longrightarrow> pageToMarkdown notion pid = Inr [])
 \<and> (isl (markdown_of_page notion pid)
      \<and> page_id pg = pid \<and> page_properties pg = Some pageProps
      \<and> extractProperties rt schemaMapping pageProps [] = Inr props
      \<and> sql_query sql
           (InsertOnConflict t
              ([str ''notion_page_id'', str ''page_content'', str ''synced_at''] @ columnNames)
              ([JStr pid, JStr [], JStr (now rt)] @ map (\<lambda>col. lookup props col) columnNames))
           (db (snd acc)) = Inr d
      \<longrightarrow> syncPage rt notion sql t schemaMapping columnNames pg acc
            = ((fst acc)\<lparr>processedCount := processedCount (fst acc) + 1\<rparr>,
               send (InsertOnConflict t
                       ([str ''notion_page_id'', str ''page_content'', str ''synced_at''] @ columnNames)
                       ([JStr pid, JStr [], JStr (now rt)] @ map (\<lambda>col. lookup props col) columnNames))
                 ((snd acc)\<lparr>db := d\<rparr>)))"
  using pageToMarkdown_total [of notion pid] pageToMarkdown_failure [of notion pid]
  by (auto simp: syncPage_def processPage_def upsertRecord_def executeRaw_def Let_def)

lemma demo_page_extract:
  "extractProperties ascii_runtime demo_schema
     [(str ''Title'', JObj [(str ''type'', JStr (str ''title'')),
                            (str ''title'', JArr [JObj [(str ''plain_text'', JStr (str title))]])]),
      (str ''Status'', JObj [(str ''type'', JStr (str ''select'')),
                             (str ''select'', JObj [(str ''name'', JStr (str ''Done''))])])] []
   = Inr [(str ''title'', JStr (str title)), (str ''status'', JStr (str ''Done''))]"
  by (simp add: demo_schema_def lookup_def str_eq_iff extractPropertyValue_def Let_def
      member'_def opt_member_def coalesce_def join_empty_def ascii_runtime_def object_assign_def)


text \<open>
  A page of the end-to-end collection whose conversion fails is written with empty content
  and counted as processed.
\<close>

theorem pageToMarkdown_never_raises_witness:
  "pageToMarkdown (failing_conversion empty_last) (str ''p1'') = Inr []
   \<and> fst (syncPage ascii_runtime (failing_conversion empty_last) catalog_client
            (getTableName (databaseId demo_options)) demo_schema [str ''title'', str ''status'']
            (demo_page ''p1'' ''Hello'' ''2024-05-01T10:00:00.000Z'')
            (\<lparr>processedCount = 0, errorCount = 0, errors = []\<rparr>, demo_store))
     = \<lparr>processedCount = 1, errorCount = 0, errors = []\<rparr>"
proof -
  let ?pg = "demo_page ''p1'' ''Hello'' ''2024-05-01T10:00:00.000Z''"
  let ?acc = "(\<lparr>processedCount = 0, errorCount = 0, errors = []\<rparr>, demo_store)"
  let ?props = "[(str ''title'', JStr (str ''Hello'')), (str ''status'', JStr (str ''Done''))]"
  have m: "isl (markdown_of_page (failing_conversion empty_last) (str ''p1''))"
    by (simp add: failing_conversion_def)
  have i: "page_id ?pg = str ''p1''" by (simp add: demo_page_def)
  have pp: "page_properties ?pg = Some
        [(str ''Title'', JObj [(str ''type'', JStr (str ''title'')),
                               (str ''title'', JArr [JObj [(str ''plain_text'', JStr (str ''Hello''))]])]),
         (str ''Status'', JObj [(str ''type'', JStr (str ''select'')),
                                (str ''select'', JObj [(str ''name'', JStr (str ''Done''))])])]"
    by (simp add: demo_page_def)
  have q: "sql_query catalog_client
           (InsertOnConflict (getTableName (databaseId demo_options))
              ([str ''notion_page_id'', str ''page_content'', str ''synced_at'']
                 @ [str ''title'', str ''status''])
              ([JStr (str ''p1''), JStr [], JStr (now ascii_runtime)]
                 @ map (\<lambda>col. lookup ?props col) [str ''title'', str ''status'']))
           (db (snd ?acc)) = Inr (db demo_store)"
    by (simp add: catalog_client_def demo_store_def str_eq_iff)
  from pageToMarkdown_never_raises [of "failing_conversion empty_last" "str ''p1''" ?pg _
      ascii_runtime demo_schema ?props catalog_client "getTableName (databaseId demo_options)"
      "[str ''title'', str ''status'']" ?acc "db demo_store"]
    m i pp demo_page_extract [of "''Hello''"] q
  show ?thesis by simp
qed

section \<open>The shape of a run of runSync\<close>

lemma runSync_cases:
  assumes "runSync rt notion sql options state w = (Inr out, w')"
  shows "\<exists>m w1 qr.
           fetchNotionSchema rt notion (databaseId options) = Inr m
         \<and> (if state = None
              then (\<exists>r. syncSchema sql (getTableName (databaseId options)) m w = (Inr r, w1))
              else w1 = w)
         \<and> databases_query notion (buildQueryParams options state) = Inr qr
         \<and> out = \<lparr>result = fst (syncPages rt notion sql (getTableName (databaseId options)) m
                                   (map columnName (map snd m)) (results qr)
                                   (\<lparr>processedCount = 0, errorCount = 0, errors = []\<rparr>, w1)),
                   nextState = determineNextState state qr,
                   hasMore = has_more qr\<rparr>
         \<and> w' = snd (syncPages rt notion sql (getTableName (databaseId options)) m
                        (map columnName (map snd m)) (results qr)
                        (\<lparr>processedCount = 0, errorCount = 0, errors = []\<rparr>, w1))"
  using assms unfolding runSync_def Let_def
  by (auto split: sum.splits prod.splits if_splits)

lemma runSync_returns:
  assumes "fetchNotionSchema rt notion (databaseId options) = Inr m"
      and "if state = None
           then syncSchema sql (getTableName (databaseId options)) m w = (Inr r, w1)
           else w1 = w"
      and "databases_query notion (buildQueryParams options state) = Inr qr"
  shows "runSync rt notion sql options state w =
           (Inr \<lparr>result = fst (syncPages rt notion sql (getTableName (databaseId options)) m
                                   (map columnName (map snd m)) (results qr)
                                   (\<lparr>processedCount = 0, errorCount = 0, errors = []\<rparr>, w1)),
                   nextState = determineNextState state qr,
                   hasMore = has_more qr\<rparr>,
            snd (syncPages rt notion sql (getTableName (databaseId options)) m
                        (map columnName (map snd m)) (results qr)
                        (\<lparr>processedCount = 0, errorCount = 0, errors = []\<rparr>, w1)))"
  using assms unfolding runSync_def Let_def
  by (auto split: sum.splits prod.splits if_splits)

lemma demo_fetch_schema:
  "fetchNotionSchema ascii_runtime (demo_notion qr) (databaseId demo_options) = Inr demo_schema"
  by (simp add: fetchNotionSchema_def demo_notion_def demo_database_def demo_schema_def
      index_TYPE_MAP_def object_assign_def TYPE_MAP_def
      str_eq_iff sanitizeColumnName_def ascii_runtime_def ascii_lower_def
      replace_outside_class_def in_class_def is_lower_alnum_def strip_underscores_def)
     (simp add: str_def)

lemma demo_query: "databases_query (demo_notion qr) q = Inr qr"
  by (simp add: demo_notion_def)

lemma demo_run:
  "runSync ascii_runtime (demo_notion qr) catalog_client demo_options (Some st) demo_store =
     (Inr \<lparr>result = fst (syncPages ascii_runtime (demo_notion qr) catalog_client
                            (getTableName (databaseId demo_options)) demo_schema
                            (map columnName (map snd demo_schema)) (results qr)
                            (\<lparr>processedCount = 0, errorCount = 0, errors = []\<rparr>, demo_store)),
           nextState = determineNextState (Some st) qr,
           hasMore = has_more qr\<rparr>,
      snd (syncPages ascii_runtime (demo_notion qr) catalog_client
                            (getTableName (databaseId demo_options)) demo_schema
                            (map columnName (map snd demo_schema)) (results qr)
                            (\<lparr>processedCount = 0, errorCount = 0, errors = []\<rparr>, demo_store)))"
  by (rule runSync_returns [OF demo_fetch_schema _ demo_query]) simp



section \<open>The state handed to the next invocation\<close>

text \<open>
  Claim C1, as the code has it. When the query reports \<open>has_more\<close> with a non-empty
  next cursor, the returned state carries exactly that cursor. Its watermark is the one of
  the carried state, copied by the spread \<open>...state\<close>: it is absent only when no state
  or no watermark was carried.
\<close>

theorem runSync_continuation_state:
  assumes "runSync rt notion sql options state w = (Inr out, w')"
      and "databases_query notion (buildQueryParams options state) = Inr qr"
      and "has_more qr" and "next_cursor qr = Some c" and "c \<noteq> []"
  shows "nextState out =
           Some \<lparr>lastSyncTime = (case state of None \<Rightarrow> None | Some st \<Rightarrow> lastSyncTime st),
                 cursor = Some c\<rparr>"
proof -
  from runSync_cases [OF assms(1)] assms(2)
  have "nextState out = determineNextState state qr" by auto
  with assms(3-5) show ?thesis
    by (cases state) (simp_all add: determineNextState_def)
qed

text \<open>
  Against C1 as stated: an incremental cycle that started from a watermark and meets a
  further page returns a state with both the cursor and the old watermark.
\<close>

theorem runSync_continuation_keeps_watermark:
  "map_sum id nextState
     (fst (runSync ascii_runtime (demo_notion more_pages) catalog_client demo_options
             (Some watermark_state) demo_store))
   = Inr (Some \<lparr>lastSyncTime = Some (str ''2024-04-30T09:00:00.000Z''),
                cursor = Some (str ''cursor-2'')\<rparr>)"
  by (simp add: demo_run determineNextState_def more_pages_def watermark_state_def str_def)

text \<open>The continuation theorem at that run.\<close>

theorem runSync_continuation_state_witness:
  "nextState (projr (fst (runSync ascii_runtime (demo_notion more_pages) catalog_client demo_options
             (Some watermark_state) demo_store)))
   = Some \<lparr>lastSyncTime = Some (str ''2024-04-30T09:00:00.000Z''), cursor = Some (str ''cursor-2'')\<rparr>"
proof -
  have c: "str ''cursor-2'' \<noteq> []" by (simp add: str_def)
  show ?thesis
    using runSync_continuation_state [OF demo_run demo_query, of more_pages "str ''cursor-2''" watermark_state]
      c
    by (simp add: demo_run more_pages_def watermark_state_def)
qed

text \<open>
  Claim C2, as the code has it. When the query returns at least one record and reports no
  further page, and the last item returned carries an edit time, the returned state has that
  edit time as its watermark and no cursor. The source guards the read with
  \<open>"last_edited_time" in lastPage\<close> and has no other branch: when the last item is a
  partial page object, which has no edit time, no state is returned.
\<close>

theorem runSync_watermark_state:
  assumes "runSync rt notion sql options state w = (Inr out, w')"
      and "databases_query notion (buildQueryParams options state) = Inr qr"
      and "results qr \<noteq> []" and "\<not> has_more qr"
  shows "nextState out =
           (case last_edited_time (last (results qr)) of
              Some t \<Rightarrow> Some \<lparr>lastSyncTime = Some t, cursor = None\<rparr>
            | None \<Rightarrow> None)"
proof -
  from runSync_cases [OF assms(1)] assms(2)
  have "nextState out = determineNextState state qr" by auto
  with assms(3,4) show ?thesis
    by (simp add: determineNextState_def)
qed

text \<open>
  Against C2 as stated: two items are returned with no further page, the last of them a
  partial page object, and no state is returned.
\<close>

theorem runSync_partial_last_page_gives_no_state:
  "map_sum id (length \<circ> results)
     (databases_query (demo_notion partial_last)
        (buildQueryParams demo_options (Some cursor_state))) = Inr 2
   \<and> map_sum id has_more
     (databases_query (demo_notion partial_last)
        (buildQueryParams demo_options (Some cursor_state))) = Inr False
   \<and> map_sum id nextState
       (fst (runSync ascii_runtime (demo_notion partial_last) catalog_client demo_options
               (Some cursor_state) demo_store))
     = Inr None"
  by (simp add: demo_run demo_query determineNextState_def partial_last_def partial_page_def)

text \<open>A last page of two records, reached through a cursor.\<close>

theorem runSync_watermark_state_witness:
  "nextState (projr (fst (runSync ascii_runtime (demo_notion last_pages) catalog_client demo_options
             (Some cursor_state) demo_store)))
   = Some \<lparr>lastSyncTime = Some (str ''2024-05-02T11:30:00.000Z''), cursor = None\<rparr>"
proof -
  have r: "results last_pages \<noteq> []" and h: "\<not> has_more last_pages"
    by (simp_all add: last_pages_def)
  show ?thesis
    using runSync_watermark_state [OF demo_run demo_query r h, of cursor_state]
    by (simp add: demo_run last_pages_def demo_page_def)
qed




section \<open>Isolation of a failing record\<close>












end
